theory Spec2Isabelle
  imports Main "HOL-Library.Signed_Division"
begin

section \<open>Coordinates and the isometric transform\<close>

text \<open>
  The coordinate structs of \<^verbatim>\<open>Viewport.cpp\<close>. Their members are \<^verbatim>\<open>int32_t\<close>; the
  model uses \<^typ>\<open>int\<close>: signed overflow is undefined behaviour in C++, and the
  coordinates of a map stay far from the 32-bit limits. \<^verbatim>\<open>a / 2\<close> truncates
  towards zero (\<open>sdiv\<close>), \<^verbatim>\<open>a >> 1\<close> is the arithmetic shift (\<open>drop_bit\<close>).
\<close>

record ScreenCoordsXY =
  scr_x :: int
  scr_y :: int

record CoordsXY =
  map_x :: int
  map_y :: int

record CoordsXYZ =
  loc_x :: int
  loc_y :: int
  loc_z :: int

record ScreenRect =
  Point1 :: ScreenCoordsXY
  Point2 :: ScreenCoordsXY

text \<open>
  Modelled from the spec: \<^verbatim>\<open>CoordsXY::Rotate\<close> is declared in a header outside this
  file. The spec describes it as the world X/Y turned by 90 degrees times the
  rotation; the quarter turns are taken about the coordinate origin, and the
  direction is reduced with \<^verbatim>\<open>direction & 3\<close>.
\<close>

definition Rotate :: "nat \<Rightarrow> CoordsXY \<Rightarrow> CoordsXY" where
  "Rotate direction p =
     (if direction mod 4 = 1 then \<lparr>map_x = map_y p, map_y = - map_x p\<rparr>
      else if direction mod 4 = 2 then \<lparr>map_x = - map_x p, map_y = - map_y p\<rparr>
      else if direction mod 4 = 3 then \<lparr>map_x = - map_y p, map_y = map_x p\<rparr>
      else p)"

text \<open>
  Modelled from the spec: \<^verbatim>\<open>DirectionFlipXAxis\<close> is declared outside this file; the
  spec calls its result the complementary rotation, the one that undoes
  \<open>Rotate\<close>.
\<close>

definition DirectionFlipXAxis :: "nat \<Rightarrow> nat" where
  "DirectionFlipXAxis direction = (direction * 3) mod 4"

definition Translate3DTo2DWithZ :: "nat \<Rightarrow> CoordsXYZ \<Rightarrow> ScreenCoordsXY" where
  "Translate3DTo2DWithZ rotation pos =
     (let rotated = Rotate rotation \<lparr>map_x = loc_x pos, map_y = loc_y pos\<rparr>
      in \<lparr>scr_x = map_y rotated - map_x rotated,
          scr_y = drop_bit 1 (map_x rotated + map_y rotated) - loc_z pos\<rparr>)"

definition ViewportPosToMapPos :: "ScreenCoordsXY \<Rightarrow> int \<Rightarrow> nat \<Rightarrow> CoordsXY" where
  "ViewportPosToMapPos coords z rotation =
     (let ret = \<lparr>map_x = scr_y coords - scr_x coords sdiv 2 + z,
                 map_y = scr_y coords + scr_x coords sdiv 2 + z\<rparr>;
          inverseRotation = DirectionFlipXAxis rotation
      in Rotate inverseRotation ret)"

section \<open>Zoom levels\<close>

text \<open>
  Modelled from the spec: \<^verbatim>\<open>ZoomLevel\<close> and its scaling members are declared
  outside this file. The spec (section 4.1) gives them: \<open>apply(v)\<close> for a zoom of
  at least 0 is \<^verbatim>\<open>v >> zoom\<close>, for a negative zoom \<^verbatim>\<open>v << -zoom\<close>, and
  \<open>applyInversed\<close> is the mirror.
\<close>

type_synonym ZoomLevel = int

definition ApplyTo :: "ZoomLevel \<Rightarrow> int \<Rightarrow> int" where
  "ApplyTo level v =
     (if 0 \<le> level then drop_bit (nat level) v else push_bit (nat (- level)) v)"

definition ApplyInversedTo :: "ZoomLevel \<Rightarrow> int \<Rightarrow> int" where
  "ApplyInversedTo level v =
     (if 0 \<le> level then push_bit (nat level) v else drop_bit (nat (- level)) v)"

section \<open>Viewports, windows and the collaborators of the file\<close>

datatype VisibilityCache = Unknown | Visible | Covered

text \<open>
  The flag words are bit masks whose bit positions are declared outside this
  file; a set of flag names stands for the mask: \<^verbatim>\<open>flags & F\<close> is membership,
  \<^verbatim>\<open>flags |= F\<close> is insertion, \<^verbatim>\<open>flags &= ~F\<close> is removal.
\<close>

datatype ViewportFlag =
    VIEWPORT_FLAG_GRIDLINES
  | VIEWPORT_FLAG_UNDERGROUND_INSIDE
  | VIEWPORT_FLAG_HIDE_VEHICLES | VIEWPORT_FLAG_INVISIBLE_VEHICLES
  | VIEWPORT_FLAG_HIDE_RIDES | VIEWPORT_FLAG_INVISIBLE_RIDES
  | VIEWPORT_FLAG_HIDE_GUESTS | VIEWPORT_FLAG_HIDE_STAFF
  | VIEWPORT_FLAG_HIDE_PATHS | VIEWPORT_FLAG_INVISIBLE_PATHS
  | VIEWPORT_FLAG_HIDE_VEGETATION | VIEWPORT_FLAG_INVISIBLE_VEGETATION
  | VIEWPORT_FLAG_HIDE_SCENERY | VIEWPORT_FLAG_INVISIBLE_SCENERY
  | VIEWPORT_FLAG_RENDERING_INHIBITED
  | VIEWPORT_FLAG_INDEPEDENT_ROTATION

datatype WindowFlag = WF_7 | WF_TRANSPARENT | WF_SCROLLING_TO_LOCATION

datatype WindowClass = MainWindow | OtherWindow nat

record Viewport =
  pos :: ScreenCoordsXY
  width :: int
  height :: int
  viewPos :: ScreenCoordsXY
  view_width :: int
  view_height :: int
  zoom :: ZoomLevel
  rotation :: nat
  flags :: "ViewportFlag set"
  visibility :: VisibilityCache

text \<open>
  A \<^verbatim>\<open>Viewport*\<close> is a handle (a natural number standing for the address of the
  list node); an \<^verbatim>\<open>EntityId\<close> is an optional number, \<open>None\<close> being the null id.
\<close>

type_synonym ViewportPtr = nat
type_synonym EntityId = "nat option"

record WindowBase =
  classification :: WindowClass
  windowPos :: ScreenCoordsXY
  w_width :: int
  w_height :: int
  w_flags :: "WindowFlag set"
  viewport :: "ViewportPtr option"
  savedViewPos :: ScreenCoordsXY
  viewport_target_sprite :: EntityId
  viewport_smart_follow_sprite :: EntityId

datatype FocusData = CoordinateFocus CoordsXYZ | EntityFocus nat

record Focus =
  data :: FocusData
  focus_zoom :: ZoomLevel

text \<open>
  What the file reads from outside itself: constants declared in headers that
  are not part of it, the configuration, the size of the device screen, the
  drawing engine, the entity list, the terrain and the window manager. They are
  parameters of the model. \<open>WindowIsVisible\<close> gives, for a window, the answer of
  the visibility test and the classification the test leaves in the cache of
  the window's viewport. \<open>OnResize\<close> is the resize handler of a window: it gets
  the window and the viewport the window points to and gives back both as it
  leaves them.
\<close>

record Env =
  kMaxViewportCount :: nat
  LOCATION_NULL :: int
  kMapMinimumXY :: int
  MapSizeMinus2 :: CoordsXY
  ContextWidth :: int
  ContextHeight :: int
  HasDirtyOptimisations :: bool
  AlwaysShowGridlines :: bool
  CurrentRotation :: nat
  GetEntity :: "nat \<Rightarrow> CoordsXYZ option"
  TileElementHeight :: "CoordsXY \<Rightarrow> int"
  TitleDemo :: bool
  SmartFollowEntity :: "WindowBase \<Rightarrow> WindowBase"
  OnResize :: "WindowBase \<Rightarrow> Viewport \<Rightarrow> WindowBase \<times> Viewport"
  GetOwner :: "ViewportPtr \<Rightarrow> WindowBase option"
  WindowIsVisible :: "WindowBase \<Rightarrow> bool \<times> VisibilityCache"

definition ScreenCoordsXY_add :: "ScreenCoordsXY \<Rightarrow> ScreenCoordsXY \<Rightarrow> ScreenCoordsXY" where
  "ScreenCoordsXY_add a b = \<lparr>scr_x = scr_x a + scr_x b, scr_y = scr_y a + scr_y b\<rparr>"

definition ScreenCoordsXY_sub :: "ScreenCoordsXY \<Rightarrow> ScreenCoordsXY \<Rightarrow> ScreenCoordsXY" where
  "ScreenCoordsXY_sub a b = \<lparr>scr_x = scr_x a - scr_x b, scr_y = scr_y a - scr_y b\<rparr>"

definition centre_2d_coordinates :: "Env \<Rightarrow> CoordsXYZ \<Rightarrow> Viewport \<Rightarrow> ScreenCoordsXY option" where
  "centre_2d_coordinates env loc vp =
     (if loc_x loc = LOCATION_NULL env then None
      else let screenCoord = Translate3DTo2DWithZ (rotation vp) loc
           in Some \<lparr>scr_x = scr_x screenCoord - view_width vp sdiv 2,
                    scr_y = scr_y screenCoord - view_height vp sdiv 2\<rparr>)"

definition GetPos :: "Env \<Rightarrow> Focus \<Rightarrow> CoordsXYZ" where
  "GetPos env focus =
     (case data focus of
        CoordinateFocus c \<Rightarrow> c
      | EntityFocus e \<Rightarrow>
          (case GetEntity env e of
             Some centreEntity \<Rightarrow> centreEntity
           | None \<Rightarrow> \<lparr>loc_x = 0, loc_y = 0, loc_z = 0\<rparr>))"

section \<open>The registry of live viewports\<close>

text \<open>
  \<^verbatim>\<open>_viewports\<close> is a \<^verbatim>\<open>std::list<Viewport>\<close>: the model pairs every element with
  its handle. A new node gets a handle that no live node has.
\<close>

type_synonym Registry = "(ViewportPtr \<times> Viewport) list"

definition new_handle :: "Registry \<Rightarrow> ViewportPtr" where
  "new_handle reg = Suc (fold max (map fst reg) 0)"

definition default_Viewport :: Viewport where
  "default_Viewport =
     \<lparr>pos = \<lparr>scr_x = 0, scr_y = 0\<rparr>, width = 0, height = 0,
      viewPos = \<lparr>scr_x = 0, scr_y = 0\<rparr>, view_width = 0, view_height = 0,
      zoom = 0, rotation = 0, flags = {}, visibility = Unknown\<rparr>"

definition ViewportCreate ::
  "Env \<Rightarrow> Registry \<times> WindowBase \<Rightarrow> ScreenCoordsXY \<Rightarrow> int \<Rightarrow> int \<Rightarrow> Focus \<Rightarrow> Registry \<times> WindowBase"
where
  "ViewportCreate env st screenCoords wd ht focus =
     (let (viewports, w) = st
      in if length viewports \<ge> kMaxViewportCount env then (viewports, w)
         else
           let itViewport = new_handle viewports;
               zm = focus_zoom focus;
               vp = default_Viewport
                      \<lparr>pos := screenCoords, width := wd, height := ht,
                       view_width := ApplyTo zm wd, view_height := ApplyTo zm ht,
                       zoom := zm, flags := {}, rotation := CurrentRotation env\<rparr>;
               vp = (if AlwaysShowGridlines env
                     then vp\<lparr>flags := insert VIEWPORT_FLAG_GRIDLINES (flags vp)\<rparr> else vp);
               w = w\<lparr>viewport := Some itViewport\<rparr>;
               centrePos = GetPos env focus;
               w = w\<lparr>viewport_target_sprite :=
                       (case data focus of CoordinateFocus c \<Rightarrow> None | EntityFocus e \<Rightarrow> Some e)\<rparr>
           in case centre_2d_coordinates env centrePos vp of
                None \<Rightarrow> (viewports @ [(itViewport, vp)], w)
              | Some centreLoc \<Rightarrow>
                  (viewports @ [(itViewport, vp\<lparr>viewPos := centreLoc\<rparr>)],
                   w\<lparr>savedViewPos := centreLoc\<rparr>))"

definition ViewportRemove :: "Registry \<Rightarrow> ViewportPtr \<Rightarrow> Registry" where
  "ViewportRemove viewports ptr =
     (if ptr \<in> fst ` set viewports then filter (\<lambda>e. fst e \<noteq> ptr) viewports
      else viewports)"

text \<open>
  The registries the program can hold: it starts empty, and this file changes it
  only through \<open>ViewportCreate\<close> and \<open>ViewportRemove\<close>.
\<close>

inductive live_registry :: "Env \<Rightarrow> Registry \<Rightarrow> bool" for env :: Env where
  start: "live_registry env []"
| create: "live_registry env reg \<Longrightarrow>
     live_registry env (fst (ViewportCreate env (reg, w) screenCoords wd ht focus))"
| remove: "live_registry env reg \<Longrightarrow> live_registry env (ViewportRemove reg ptr)"

section \<open>Invalidation\<close>

text \<open>
  The effects of an invalidation: the rectangles handed to \<^verbatim>\<open>GfxSetDirtyBlocks\<close>
  and the windows handed to \<^verbatim>\<open>WindowIsVisible\<close>, each in call order.
\<close>

record Damage =
  dirty :: "ScreenRect list"
  visible_queries :: "WindowBase list"

definition ViewportInvalidate ::
  "Env \<Rightarrow> ViewportPtr \<Rightarrow> Viewport \<Rightarrow> ScreenRect \<Rightarrow> Damage \<Rightarrow> Viewport \<times> Damage"
where
  "ViewportInvalidate env ptr vp0 screenRect dmg0 =
     (let (proceed, vp, dmg) =
            (if visibility vp0 = Unknown then
               (case GetOwner env ptr of
                  None \<Rightarrow> (True, vp0, dmg0)
                | Some owner \<Rightarrow>
                    if classification owner \<noteq> MainWindow then
                      let (vis, cache) = WindowIsVisible env owner
                      in (vis, vp0\<lparr>visibility := cache\<rparr>,
                          dmg0\<lparr>visible_queries := visible_queries dmg0 @ [owner]\<rparr>)
                    else (True, vp0, dmg0))
             else (True, vp0, dmg0))
      in if \<not> proceed then (vp, dmg)
         else if visibility vp = Covered then (vp, dmg)
         else
           let topLeft = Point1 screenRect;
               bottomRight = Point2 screenRect;
               viewportRight = scr_x (viewPos vp) + view_width vp;
               viewportBottom = scr_y (viewPos vp) + view_height vp
           in if scr_x bottomRight > scr_x (viewPos vp) \<and> scr_y bottomRight > scr_y (viewPos vp)
              then
                let topLeft = \<lparr>scr_x = max (scr_x topLeft) (scr_x (viewPos vp)),
                               scr_y = max (scr_y topLeft) (scr_y (viewPos vp))\<rparr>;
                    topLeft = ScreenCoordsXY_sub topLeft (viewPos vp);
                    topLeft = \<lparr>scr_x = ApplyInversedTo (zoom vp) (scr_x topLeft),
                               scr_y = ApplyInversedTo (zoom vp) (scr_y topLeft)\<rparr>;
                    topLeft = ScreenCoordsXY_add topLeft (pos vp);
                    bottomRight = \<lparr>scr_x = min (scr_x bottomRight) viewportRight,
                                   scr_y = min (scr_y bottomRight) viewportBottom\<rparr>;
                    bottomRight = ScreenCoordsXY_sub bottomRight (viewPos vp);
                    bottomRight = \<lparr>scr_x = ApplyInversedTo (zoom vp) (scr_x bottomRight),
                                   scr_y = ApplyInversedTo (zoom vp) (scr_y bottomRight)\<rparr>;
                    bottomRight = ScreenCoordsXY_add bottomRight (pos vp)
                in (vp, dmg\<lparr>dirty := dirty dmg @ [\<lparr>Point1 = topLeft, Point2 = bottomRight\<rparr>]\<rparr>)
              else (vp, dmg))"

text \<open>
  The world-rect overload of \<^verbatim>\<open>ViewportsInvalidate\<close>. The loop over the registry is
  a recursion over the list; \<open>x\<close> and \<open>y\<close> are the function's own parameters,
  which the loop body increments.
\<close>

fun ViewportsInvalidate ::
  "Env \<Rightarrow> Registry \<Rightarrow> int \<Rightarrow> int \<Rightarrow> int \<Rightarrow> int \<Rightarrow> ZoomLevel \<Rightarrow> Damage \<Rightarrow> Registry \<times> Damage"
where
  "ViewportsInvalidate env [] x y z0 z1 maxZoom dmg = ([], dmg)"
| "ViewportsInvalidate env ((ptr, vp) # vps) x y z0 z1 maxZoom dmg =
     (if maxZoom = - 1 \<or> zoom vp \<le> maxZoom then
        let x = x + 16;
            y = y + 16;
            screenCoord = Translate3DTo2DWithZ (rotation vp) \<lparr>loc_x = x, loc_y = y, loc_z = 0\<rparr>;
            x1 = scr_x screenCoord - 32;
            y1 = scr_y screenCoord - 32 - z1;
            x2 = scr_x screenCoord + 32;
            y2 = scr_y screenCoord + 32 - z0;
            (vp', dmg') = ViewportInvalidate env ptr vp
                            \<lparr>Point1 = \<lparr>scr_x = x1, scr_y = y1\<rparr>,
                             Point2 = \<lparr>scr_x = x2, scr_y = y2\<rparr>\<rparr> dmg;
            (vps', dmg'') = ViewportsInvalidate env vps x y z0 z1 maxZoom dmg'
        in ((ptr, vp') # vps', dmg'')
      else
        let (vps', dmg') = ViewportsInvalidate env vps x y z0 z1 maxZoom dmg
        in ((ptr, vp) # vps', dmg'))"

text \<open>
  The overload of \<^verbatim>\<open>ViewportsInvalidate\<close> for a world point with a width and a
  height range around its screen position.
\<close>

fun ViewportsInvalidatePos ::
  "Env \<Rightarrow> Registry \<Rightarrow> CoordsXYZ \<Rightarrow> int \<Rightarrow> int \<Rightarrow> int \<Rightarrow> ZoomLevel \<Rightarrow> Damage \<Rightarrow> Registry \<times> Damage"
where
  "ViewportsInvalidatePos env [] p wd minHeight maxHeight maxZoom dmg = ([], dmg)"
| "ViewportsInvalidatePos env ((ptr, vp) # vps) p wd minHeight maxHeight maxZoom dmg =
     (if maxZoom = - 1 \<or> zoom vp \<le> maxZoom then
        let screenCoords = Translate3DTo2DWithZ (rotation vp) p;
            screenPos =
              \<lparr>Point1 = ScreenCoordsXY_sub screenCoords \<lparr>scr_x = wd, scr_y = minHeight\<rparr>,
               Point2 = ScreenCoordsXY_add screenCoords \<lparr>scr_x = wd, scr_y = maxHeight\<rparr>\<rparr>;
            (vp', dmg') = ViewportInvalidate env ptr vp screenPos dmg;
            (vps', dmg'') = ViewportsInvalidatePos env vps p wd minHeight maxHeight maxZoom dmg'
        in ((ptr, vp') # vps', dmg'')
      else
        let (vps', dmg') = ViewportsInvalidatePos env vps p wd minHeight maxHeight maxZoom dmg
        in ((ptr, vp) # vps', dmg'))"

section \<open>Concrete inputs\<close>

text \<open>
  A device screen of 640 by 480 pixels with dirty-rectangle optimisations, a map
  of 64 by 64 tiles, room for two viewports, no entities, flat terrain, resize
  handlers that change nothing, and a window manager that knows no owner.
\<close>

definition example_env :: Env where
  "example_env =
     \<lparr>kMaxViewportCount = 2, LOCATION_NULL = - 32768, kMapMinimumXY = 32,
      MapSizeMinus2 = \<lparr>map_x = 2015, map_y = 2015\<rparr>,
      ContextWidth = 640, ContextHeight = 480,
      HasDirtyOptimisations = True, AlwaysShowGridlines = False, CurrentRotation = 0,
      GetEntity = (\<lambda>e. None), TileElementHeight = (\<lambda>p. 0), TitleDemo = False,
      SmartFollowEntity = (\<lambda>w. w), OnResize = (\<lambda>w vp. (w, vp)),
      GetOwner = (\<lambda>p. None), WindowIsVisible = (\<lambda>w. (True, Visible))\<rparr>"

definition example_window :: WindowBase where
  "example_window =
     \<lparr>classification = OtherWindow 1, windowPos = \<lparr>scr_x = 0, scr_y = 0\<rparr>,
      w_width = 200, w_height = 200, w_flags = {}, viewport = None,
      savedViewPos = \<lparr>scr_x = 0, scr_y = 0\<rparr>,
      viewport_target_sprite = None, viewport_smart_follow_sprite = None\<rparr>"

text \<open>A viewport of 200 by 100 pixels at screen position (100, 50), centred on the world origin.\<close>

definition centred_viewport :: Viewport where
  "centred_viewport =
     \<lparr>pos = \<lparr>scr_x = 100, scr_y = 50\<rparr>, width = 200, height = 100,
      viewPos = \<lparr>scr_x = - 100, scr_y = - 50\<rparr>, view_width = 200, view_height = 100,
      zoom = 0, rotation = 0, flags = {}, visibility = Visible\<rparr>"

definition no_damage :: Damage where
  "no_damage = \<lparr>dirty = [], visible_queries = []\<rparr>"

definition unknown_viewport :: Viewport where
  "unknown_viewport = centred_viewport\<lparr>visibility := Unknown\<rparr>"

definition main_window :: WindowBase where
  "main_window = example_window\<lparr>classification := MainWindow, viewport := Some 1\<rparr>"

definition hidden_window :: WindowBase where
  "hidden_window = example_window\<lparr>viewport := Some 1\<rparr>"

definition whole_view :: ScreenRect where
  "whole_view = \<lparr>Point1 = \<lparr>scr_x = - 100, scr_y = - 50\<rparr>, Point2 = \<lparr>scr_x = 100, scr_y = 50\<rparr>\<rparr>"

definition origin_focus :: Focus where
  "origin_focus = \<lparr>data = CoordinateFocus \<lparr>loc_x = 0, loc_y = 0, loc_z = 0\<rparr>, focus_zoom = 0\<rparr>"

definition full_registry :: Registry where
  "full_registry =
     fst (ViewportCreate example_env
            (fst (ViewportCreate example_env ([], example_window)
                    \<lparr>scr_x = 0, scr_y = 0\<rparr> 200 100 origin_focus), example_window)
            \<lparr>scr_x = 300, scr_y = 0\<rparr> 200 100 origin_focus)"

section \<open>Moving a viewport and repainting after the shift\<close>

text \<open>
  The calls into the drawing engine and the window system. A trace pairs each
  call with the value the viewport object has at that moment: the object is
  changed in place, so that value is what the rest of the program can see
  while the call runs.
\<close>

datatype Call =
    DrawingEngineCopyRect int int int int int int
  | WindowDrawAll int int int int
  | WindowInvalidate

type_synonym Trace = "(Viewport \<times> Call) list"

text \<open>The branch of \<^verbatim>\<open>ViewportRedrawAfterShift\<close> for \<^verbatim>\<open>window == nullptr\<close>.\<close>

definition RedrawWithoutWindow :: "Viewport \<Rightarrow> ScreenCoordsXY \<Rightarrow> Call list" where
  "RedrawWithoutWindow vp coords =
     (let left = scr_x (pos vp);
          right = scr_x (pos vp) + width vp;
          top = scr_y (pos vp);
          bottom = scr_y (pos vp) + height vp
      in if \<bar>scr_x coords\<bar> < width vp \<and> \<bar>scr_y coords\<bar> < height vp then
           let copy = DrawingEngineCopyRect (scr_x (pos vp)) (scr_y (pos vp)) (width vp) (height vp)
                        (scr_x coords) (scr_y coords);
               (across, left, right) =
                 (if scr_x coords > 0
                  then ([WindowDrawAll left top (scr_x (pos vp) + scr_x coords) bottom],
                        left + scr_x coords, right)
                  else if scr_x coords < 0
                  then ([WindowDrawAll (scr_x (pos vp) + width vp + scr_x coords) top right bottom],
                        left, right + scr_x coords)
                  else ([], left, right));
               down =
                 (if scr_y coords > 0
                  then [WindowDrawAll left top right (scr_y (pos vp) + scr_y coords)]
                  else if scr_y coords < 0
                  then [WindowDrawAll left (scr_y (pos vp) + height vp + scr_y coords) right bottom]
                  else [])
           in copy # across @ down
         else [WindowDrawAll left top right bottom])"

text \<open>
  The statement groups of the four sub-dividing branches. The first piece gets
  its width (or height) set and \<open>view_width\<close> recomputed; the second piece starts
  where the first ended. Both groups of the vertical branches assign
  \<open>view_width\<close>, as the source does.
\<close>

definition first_piece_x :: "Viewport \<Rightarrow> int \<Rightarrow> Viewport" where
  "first_piece_x vp w =
     (let vp = vp\<lparr>width := w\<rparr>
      in vp\<lparr>view_width := ApplyTo (zoom vp) (width vp)\<rparr>)"

definition second_piece_x :: "Viewport \<Rightarrow> Viewport \<Rightarrow> Viewport" where
  "second_piece_x view_copy vp =
     (let vp = vp\<lparr>pos := (pos vp)\<lparr>scr_x := scr_x (pos vp) + width vp\<rparr>\<rparr>;
          vp = vp\<lparr>viewPos := (viewPos vp)\<lparr>scr_x := scr_x (viewPos vp) + ApplyTo (zoom vp) (width vp)\<rparr>\<rparr>;
          vp = vp\<lparr>width := width view_copy - width vp\<rparr>
      in vp\<lparr>view_width := ApplyTo (zoom vp) (width vp)\<rparr>)"

definition first_piece_y :: "Viewport \<Rightarrow> int \<Rightarrow> Viewport" where
  "first_piece_y vp h =
     (let vp = vp\<lparr>height := h\<rparr>
      in vp\<lparr>view_width := ApplyTo (zoom vp) (width vp)\<rparr>)"

definition second_piece_y :: "Viewport \<Rightarrow> Viewport \<Rightarrow> Viewport" where
  "second_piece_y view_copy vp =
     (let vp = vp\<lparr>pos := (pos vp)\<lparr>scr_y := scr_y (pos vp) + height vp\<rparr>\<rparr>;
          vp = vp\<lparr>viewPos := (viewPos vp)\<lparr>scr_y := scr_y (viewPos vp) + ApplyTo (zoom vp) (height vp)\<rparr>\<rparr>;
          vp = vp\<lparr>height := height view_copy - height vp\<rparr>
      in vp\<lparr>view_width := ApplyTo (zoom vp) (width vp)\<rparr>)"

text \<open>The test "skip current window and non-intersecting windows".\<close>

definition skip_window :: "WindowBase \<Rightarrow> ViewportPtr \<Rightarrow> Viewport \<Rightarrow> bool" where
  "skip_window window ptr vp =
     (Some ptr = viewport window
      \<or> scr_x (pos vp) + width vp \<le> scr_x (windowPos window)
      \<or> scr_x (pos vp) \<ge> scr_x (windowPos window) + w_width window
      \<or> scr_y (pos vp) + height vp \<le> scr_y (windowPos window)
      \<or> scr_y (pos vp) \<ge> scr_y (windowPos window) + w_height window)"

text \<open>
  \<^verbatim>\<open>ViewportRedrawAfterShift\<close>. The window argument and its successors in
  \<^verbatim>\<open>g_window_list\<close> are a list; the empty list is the null window. The viewport
  is passed by pointer and changed in place, so each call returns the viewport
  it leaves behind, and the second recursive call of a branch continues from
  what the first one returned.
\<close>

function ViewportRedrawAfterShift ::
  "WindowBase list \<Rightarrow> ViewportPtr \<Rightarrow> Viewport \<Rightarrow> ScreenCoordsXY \<Rightarrow> Viewport \<times> Trace"
where
  "ViewportRedrawAfterShift [] ptr vp coords =
     (vp, map (Pair vp) (RedrawWithoutWindow vp coords))"
| "ViewportRedrawAfterShift (window # next) ptr vp coords =
     (if skip_window window ptr vp then ViewportRedrawAfterShift next ptr vp coords
      else if scr_x (pos vp) < scr_x (windowPos window) then
        (let view_copy = vp;
             vp = first_piece_x vp (scr_x (windowPos window) - scr_x (pos vp));
             (vp, t1) = ViewportRedrawAfterShift (window # next) ptr vp coords;
             vp = second_piece_x view_copy vp;
             (vp, t2) = ViewportRedrawAfterShift (window # next) ptr vp coords
         in (view_copy, t1 @ t2))
      else if scr_x (pos vp) + width vp > scr_x (windowPos window) + w_width window then
        (let view_copy = vp;
             vp = first_piece_x vp (scr_x (windowPos window) + w_width window - scr_x (pos vp));
             (vp, t1) = ViewportRedrawAfterShift (window # next) ptr vp coords;
             vp = second_piece_x view_copy vp;
             (vp, t2) = ViewportRedrawAfterShift (window # next) ptr vp coords
         in (view_copy, t1 @ t2))
      else if scr_y (pos vp) < scr_y (windowPos window) then
        (let view_copy = vp;
             vp = first_piece_y vp (scr_y (windowPos window) - scr_y (pos vp));
             (vp, t1) = ViewportRedrawAfterShift (window # next) ptr vp coords;
             vp = second_piece_y view_copy vp;
             (vp, t2) = ViewportRedrawAfterShift (window # next) ptr vp coords
         in (view_copy, t1 @ t2))
      else if scr_y (pos vp) + height vp > scr_y (windowPos window) + w_height window then
        (let view_copy = vp;
             vp = first_piece_y vp (scr_y (windowPos window) + w_height window - scr_y (pos vp));
             (vp, t1) = ViewportRedrawAfterShift (window # next) ptr vp coords;
             vp = second_piece_y view_copy vp;
             (vp, t2) = ViewportRedrawAfterShift (window # next) ptr vp coords
         in (view_copy, t1 @ t2))
      else (vp, []))"
  by pat_completeness auto

text \<open>
  Termination: every recursive call either moves on to the next window or stays
  at the same window with a piece that a later branch (or none) applies to.
\<close>

definition carve_rank :: "WindowBase list \<Rightarrow> ViewportPtr \<Rightarrow> Viewport \<Rightarrow> nat" where
  "carve_rank ws ptr vp =
     (case ws of
        [] \<Rightarrow> 0
      | window # next \<Rightarrow>
          if skip_window window ptr vp then 0
          else if scr_x (pos vp) < scr_x (windowPos window) then 5
          else if scr_x (pos vp) + width vp > scr_x (windowPos window) + w_width window then 4
          else if scr_y (pos vp) < scr_y (windowPos window) then 3
          else if scr_y (pos vp) + height vp > scr_y (windowPos window) + w_height window then 2
          else 1)"

lemma ViewportRedrawAfterShift_restores_dom:
  "ViewportRedrawAfterShift_dom (ws, ptr, vp, coords) \<Longrightarrow>
   fst (ViewportRedrawAfterShift ws ptr vp coords) = vp"
proof (induction ws ptr vp coords rule: ViewportRedrawAfterShift.pinduct)
  case (1 ptr vp coords)
  then show ?case by (simp add: ViewportRedrawAfterShift.psimps)
next
  case (2 window "next" ptr vp coords)
  then show ?case
    by (simp add: ViewportRedrawAfterShift.psimps Let_def split: prod.splits if_splits)
qed

termination ViewportRedrawAfterShift
proof (relation "measures [\<lambda>(ws, ptr, vp, coords). length ws,
                           \<lambda>(ws, ptr, vp, coords). carve_rank ws ptr vp]", goal_cases)
  case 1
  show ?case by simp
next
  case 2
  then show ?case by simp
next
  case (3 window nxt ptr vp coords x xa)
  then show ?case
    by (simp add: carve_rank_def skip_window_def first_piece_x_def)
next
  case (4 window nxt ptr vp coords x xa xb xaa y xab)
  from 4 have "xaa = xa"
    using ViewportRedrawAfterShift_restores_dom [of "window # nxt" ptr xa coords]
    by (metis fst_conv)
  with 4 show ?case
    by (simp add: carve_rank_def skip_window_def first_piece_x_def second_piece_x_def)
next
  case (5 window nxt ptr vp coords x xa)
  then show ?case
    by (simp add: carve_rank_def skip_window_def first_piece_x_def)
next
  case (6 window nxt ptr vp coords x xa xb xaa y xab)
  from 6 have "xaa = xa"
    using ViewportRedrawAfterShift_restores_dom [of "window # nxt" ptr xa coords]
    by (metis fst_conv)
  with 6 show ?case
    by (simp add: carve_rank_def skip_window_def first_piece_x_def second_piece_x_def)
next
  case (7 window nxt ptr vp coords x xa)
  then show ?case
    by (simp add: carve_rank_def skip_window_def first_piece_y_def)
next
  case (8 window nxt ptr vp coords x xa xb xaa y xab)
  from 8 have "xaa = xa"
    using ViewportRedrawAfterShift_restores_dom [of "window # nxt" ptr xa coords]
    by (metis fst_conv)
  with 8 show ?case
    by (simp add: carve_rank_def skip_window_def first_piece_y_def second_piece_y_def)
next
  case (9 window nxt ptr vp coords x xa)
  then show ?case
    by (simp add: carve_rank_def skip_window_def first_piece_y_def)
next
  case (10 window nxt ptr vp coords x xa xb xaa y xab)
  from 10 have "xaa = xa"
    using ViewportRedrawAfterShift_restores_dom [of "window # nxt" ptr xa coords]
    by (metis fst_conv)
  with 10 show ?case
    by (simp add: carve_rank_def skip_window_def first_piece_y_def second_piece_y_def)
qed

text \<open>
  The loop of \<^verbatim>\<open>ViewportShiftPixels\<close> over the windows from \<open>window\<close> to the end of
  \<^verbatim>\<open>g_window_list\<close>: the part of every other transparent window that lies over
  the viewport is repainted.
\<close>

fun RepaintTransparent :: "WindowBase list \<Rightarrow> ViewportPtr \<Rightarrow> Viewport \<Rightarrow> Call list" where
  "RepaintTransparent [] ptr vp = []"
| "RepaintTransparent (w # ws) ptr vp =
     (if WF_TRANSPARENT \<notin> w_flags w then RepaintTransparent ws ptr vp
      else if viewport w = Some ptr then RepaintTransparent ws ptr vp
      else if scr_x (pos vp) + width vp \<le> scr_x (windowPos w) then RepaintTransparent ws ptr vp
      else if scr_x (windowPos w) + w_width w \<le> scr_x (pos vp) then RepaintTransparent ws ptr vp
      else if scr_y (pos vp) + height vp \<le> scr_y (windowPos w) then RepaintTransparent ws ptr vp
      else if scr_y (windowPos w) + w_height w \<le> scr_y (pos vp) then RepaintTransparent ws ptr vp
      else
        let left = scr_x (windowPos w);
            right = scr_x (windowPos w) + w_width w;
            top = scr_y (windowPos w);
            bottom = scr_y (windowPos w) + w_height w;
            left = (if left < scr_x (pos vp) then scr_x (pos vp) else left);
            right = (if right > scr_x (pos vp) + width vp then scr_x (pos vp) + width vp else right);
            top = (if top < scr_y (pos vp) then scr_y (pos vp) else top);
            bottom = (if bottom > scr_y (pos vp) + height vp then scr_y (pos vp) + height vp else bottom)
        in if left \<ge> right then RepaintTransparent ws ptr vp
           else if top \<ge> bottom then RepaintTransparent ws ptr vp
           else WindowDrawAll left top right bottom # RepaintTransparent ws ptr vp)"

definition ViewportShiftPixels ::
  "WindowBase list \<Rightarrow> ViewportPtr \<Rightarrow> Viewport \<Rightarrow> int \<Rightarrow> int \<Rightarrow> Viewport \<times> Trace"
where
  "ViewportShiftPixels windows ptr vp x_diff y_diff =
     (let t0 = map (Pair vp) (RepaintTransparent windows ptr vp);
          (vp, t1) = ViewportRedrawAfterShift windows ptr vp \<lparr>scr_x = x_diff, scr_y = y_diff\<rparr>
      in (vp, t0 @ t1))"

text \<open>The clamping of \<^verbatim>\<open>ViewportMove\<close> to the left and right screen edges, then to the top and bottom.\<close>

definition clamp_to_screen_x :: "Env \<Rightarrow> ZoomLevel \<Rightarrow> Viewport \<Rightarrow> Viewport" where
  "clamp_to_screen_x env zm vp =
     (let vp = (if scr_x (pos vp) < 0
                then vp\<lparr>width := width vp + scr_x (pos vp),
                        view_width := view_width vp + ApplyTo zm (scr_x (pos vp)),
                        viewPos := (viewPos vp)\<lparr>scr_x := scr_x (viewPos vp) - ApplyTo zm (scr_x (pos vp))\<rparr>,
                        pos := (pos vp)\<lparr>scr_x := 0\<rparr>\<rparr>
                else vp);
          eax = scr_x (pos vp) + width vp - ContextWidth env
      in if eax > 0
         then vp\<lparr>width := width vp - eax, view_width := view_width vp - ApplyTo zm eax\<rparr>
         else vp)"

definition clamp_to_screen_y :: "Env \<Rightarrow> ZoomLevel \<Rightarrow> Viewport \<Rightarrow> Viewport" where
  "clamp_to_screen_y env zm vp =
     (let vp = (if scr_y (pos vp) < 0
                then vp\<lparr>height := height vp + scr_y (pos vp),
                        view_height := view_height vp + ApplyTo zm (scr_y (pos vp)),
                        viewPos := (viewPos vp)\<lparr>scr_y := scr_y (viewPos vp) - ApplyTo zm (scr_y (pos vp))\<rparr>,
                        pos := (pos vp)\<lparr>scr_y := 0\<rparr>\<rparr>
                else vp);
          eax = scr_y (pos vp) + height vp - ContextHeight env
      in if eax > 0
         then vp\<lparr>height := height vp - eax, view_height := view_height vp - ApplyTo zm eax\<rparr>
         else vp)"

text \<open>
  A call of \<^verbatim>\<open>ViewportMove\<close> gets to the clamping when the pixel difference is
  not zero and the repaint-only path of a \<^verbatim>\<open>WF_7\<close> window does not return.
\<close>

definition x_diff_of :: "ScreenCoordsXY \<Rightarrow> Viewport \<Rightarrow> int" where
  "x_diff_of coords vp =
     ApplyInversedTo (zoom vp) (scr_x (viewPos vp)) - ApplyInversedTo (zoom vp) (scr_x coords)"

definition y_diff_of :: "ScreenCoordsXY \<Rightarrow> Viewport \<Rightarrow> int" where
  "y_diff_of coords vp =
     ApplyInversedTo (zoom vp) (scr_y (viewPos vp)) - ApplyInversedTo (zoom vp) (scr_y coords)"

definition repaint_only_returns :: "Env \<Rightarrow> WindowBase \<Rightarrow> Viewport \<Rightarrow> bool" where
  "repaint_only_returns env w vp =
     (WF_7 \<in> w_flags w \<and>
      (max (scr_x (pos vp)) 0 \<ge> min (scr_x (pos vp) + width vp) (ContextWidth env)
       \<or> max (scr_y (pos vp)) 0 \<ge> min (scr_y (pos vp) + height vp) (ContextHeight env)
       \<or> HasDirtyOptimisations env))"

definition reaches_clamping :: "Env \<Rightarrow> ScreenCoordsXY \<Rightarrow> WindowBase \<Rightarrow> Viewport \<Rightarrow> bool" where
  "reaches_clamping env coords w vp =
     (\<not> (x_diff_of coords vp = 0 \<and> y_diff_of coords vp = 0) \<and> \<not> repaint_only_returns env w vp)"

text \<open>
  \<^verbatim>\<open>ViewportMove\<close>. \<open>others\<close> are the windows that follow \<open>w\<close> in \<^verbatim>\<open>g_window_list\<close>;
  \<open>ptr\<close> is the address of the viewport.
\<close>

definition ViewportMove ::
  "Env \<Rightarrow> ScreenCoordsXY \<Rightarrow> WindowBase \<Rightarrow> WindowBase list \<Rightarrow> ViewportPtr \<Rightarrow> Viewport
     \<Rightarrow> Viewport \<times> Trace"
where
  "ViewportMove env coords w others ptr vp0 =
     (let zm = zoom vp0;
          x_diff = x_diff_of coords vp0;
          y_diff = y_diff_of coords vp0;
          vp = vp0\<lparr>viewPos := coords\<rparr>
      in if x_diff = 0 \<and> y_diff = 0 then (vp, [])
         else
           let left = max (scr_x (pos vp)) 0;
               top = max (scr_y (pos vp)) 0;
               right = min (scr_x (pos vp) + width vp) (ContextWidth env);
               bottom = min (scr_y (pos vp) + height vp) (ContextHeight env)
           in if WF_7 \<in> w_flags w \<and> left \<ge> right then (vp, [])
              else if WF_7 \<in> w_flags w \<and> top \<ge> bottom then (vp, [])
              else if WF_7 \<in> w_flags w \<and> HasDirtyOptimisations env
              then (vp, [(vp, WindowDrawAll left top right bottom)])
              else
                let view_copy = vp;
                    vp = clamp_to_screen_x env zm vp
                in if width vp \<le> 0 then (view_copy, [])
                   else
                     let vp = clamp_to_screen_y env zm vp
                     in if height vp \<le> 0 then (view_copy, [])
                        else if HasDirtyOptimisations env
                        then (let (vp, t) = ViewportShiftPixels (w # others) ptr vp x_diff y_diff
                              in (view_copy, t))
                        else (view_copy, []))"

text \<open>
  A viewport of 200 by 200 pixels in the top left corner of the screen, its
  window, and a second window stacked above it that covers the lower half.
\<close>

definition corner_viewport :: Viewport where
  "corner_viewport =
     \<lparr>pos = \<lparr>scr_x = 0, scr_y = 0\<rparr>, width = 200, height = 200,
      viewPos = \<lparr>scr_x = 0, scr_y = 0\<rparr>, view_width = 200, view_height = 200,
      zoom = 0, rotation = 0, flags = {}, visibility = Visible\<rparr>"

definition owner_window :: WindowBase where
  "owner_window = example_window\<lparr>viewport := Some 1\<rparr>"

definition lower_window :: WindowBase where
  "lower_window = example_window\<lparr>windowPos := \<lparr>scr_x = 0, scr_y = 100\<rparr>, w_height := 100\<rparr>"

text \<open>The same viewport pushed off the left edge of the screen.\<close>

definition offscreen_viewport :: Viewport where
  "offscreen_viewport = corner_viewport\<lparr>pos := \<lparr>scr_x = - 300, scr_y = 0\<rparr>\<rparr>"

section \<open>The per-frame position update\<close>

definition ViewportSetUndergroundFlag :: "bool \<Rightarrow> WindowBase \<Rightarrow> Viewport \<Rightarrow> Viewport \<times> Trace" where
  "ViewportSetUndergroundFlag underground window vp =
     (if classification window \<noteq> MainWindow
         \<or> (classification window = MainWindow \<and> viewport_smart_follow_sprite window \<noteq> None)
      then
        if \<not> underground then
          let bit = (VIEWPORT_FLAG_UNDERGROUND_INSIDE \<in> flags vp);
              vp = vp\<lparr>flags := flags vp - {VIEWPORT_FLAG_UNDERGROUND_INSIDE}\<rparr>
          in if \<not> bit then (vp, []) else (vp, [(vp, WindowInvalidate)])
        else
          let bit = (VIEWPORT_FLAG_UNDERGROUND_INSIDE \<in> flags vp);
              vp = vp\<lparr>flags := insert VIEWPORT_FLAG_UNDERGROUND_INSIDE (flags vp)\<rparr>
          in if bit then (vp, []) else (vp, [(vp, WindowInvalidate)])
      else (vp, []))"

definition ViewportUpdateFollowSprite ::
  "Env \<Rightarrow> WindowBase list \<Rightarrow> WindowBase \<times> Viewport \<Rightarrow> (WindowBase \<times> Viewport) \<times> Trace"
where
  "ViewportUpdateFollowSprite env others st =
     (let (window, vp) = st
      in case (viewport_target_sprite window, viewport window) of
           (Some target, Some ptr) \<Rightarrow>
             (case GetEntity env target of
                None \<Rightarrow> ((window, vp), [])
              | Some sprite \<Rightarrow>
                  let (vp, t0) =
                        (if \<not> TitleDemo env then
                           let h = TileElementHeight env \<lparr>map_x = loc_x sprite, map_y = loc_y sprite\<rparr> - 16;
                               underground = (loc_z sprite < h)
                           in ViewportSetUndergroundFlag underground window vp
                         else (vp, []))
                  in case centre_2d_coordinates env sprite vp of
                       None \<Rightarrow> ((window, vp), t0)
                     | Some centreLoc \<Rightarrow>
                         let window = window\<lparr>savedViewPos := centreLoc\<rparr>;
                             (vp, t1) = ViewportMove env centreLoc window others ptr vp
                         in ((window, vp), t0 @ t1))
         | _ \<Rightarrow> ((window, vp), []))"

text \<open>The clamping of the map coordinate under the middle of the view to the map.\<close>

definition ClampToMap :: "Env \<Rightarrow> CoordsXY \<Rightarrow> CoordsXY \<times> bool" where
  "ClampToMap env mapCoord =
     (let at_map_edge = False;
          (mapCoord, at_map_edge) =
            (if map_x mapCoord < kMapMinimumXY env
             then (mapCoord\<lparr>map_x := kMapMinimumXY env\<rparr>, True) else (mapCoord, at_map_edge));
          (mapCoord, at_map_edge) =
            (if map_y mapCoord < kMapMinimumXY env
             then (mapCoord\<lparr>map_y := kMapMinimumXY env\<rparr>, True) else (mapCoord, at_map_edge));
          mapSizeMinus2 = MapSizeMinus2 env;
          (mapCoord, at_map_edge) =
            (if map_x mapCoord > map_x mapSizeMinus2
             then (mapCoord\<lparr>map_x := map_x mapSizeMinus2\<rparr>, True) else (mapCoord, at_map_edge));
          (mapCoord, at_map_edge) =
            (if map_y mapCoord > map_y mapSizeMinus2
             then (mapCoord\<lparr>map_y := map_y mapSizeMinus2\<rparr>, True) else (mapCoord, at_map_edge))
      in (mapCoord, at_map_edge))"

text \<open>
  The saved view position after the map-edge correction: the middle of the saved
  view is taken to the map, clamped, and, if the clamping changed it, the saved
  view is centred on the clamped coordinate.
\<close>

definition SavedViewAtMapEdge :: "Env \<Rightarrow> Viewport \<Rightarrow> ScreenCoordsXY \<Rightarrow> ScreenCoordsXY" where
  "SavedViewAtMapEdge env vp saved =
     (let viewportMidPoint = \<lparr>scr_x = scr_x saved + view_width vp sdiv 2,
                               scr_y = scr_y saved + view_height vp sdiv 2\<rparr>;
          mapCoord = ViewportPosToMapPos viewportMidPoint 0 (rotation vp);
          (mapCoord, at_map_edge) = ClampToMap env mapCoord
      in if at_map_edge then
           (case centre_2d_coordinates env
                   \<lparr>loc_x = map_x mapCoord, loc_y = map_y mapCoord, loc_z = 0\<rparr> vp of
              Some centreLoc \<Rightarrow> centreLoc
            | None \<Rightarrow> saved)
         else saved)"

text \<open>
  The body of \<^verbatim>\<open>if (window->flags & WF_SCROLLING_TO_LOCATION)\<close>: the step towards
  the saved view position, an eighth of the distance on each axis, rounded up.
\<close>

definition ScrollingToLocation ::
  "WindowBase \<Rightarrow> Viewport \<Rightarrow> ScreenCoordsXY \<Rightarrow> WindowBase \<times> ScreenCoordsXY"
where
  "ScrollingToLocation window vp windowCoords =
     (let wx = scr_x windowCoords - scr_x (viewPos vp);
          (wx, flag1) = (if wx < 0 then (- wx, True) else (wx, False));
          wy = scr_y windowCoords - scr_y (viewPos vp);
          (wy, flag2) = (if wy < 0 then (- wy, True) else (wy, False));
          wx = (wx + 7) sdiv 8;
          wy = (wy + 7) sdiv 8;
          window = (if wx = 0 \<and> wy = 0
                    then window\<lparr>w_flags := w_flags window - {WF_SCROLLING_TO_LOCATION}\<rparr>
                    else window);
          wx = (if flag1 then - wx else wx);
          wy = (if flag2 then - wy else wy)
      in (window, \<lparr>scr_x = wx + scr_x (viewPos vp), scr_y = wy + scr_y (viewPos vp)\<rparr>))"

text \<open>
  \<^verbatim>\<open>ViewportUpdatePosition\<close>, on a window and the viewport its pointer refers to.
  The call of the window's \<^verbatim>\<open>OnResize\<close> handler comes first; the handler is
  outside the file and is the parameter \<open>OnResize\<close>, and the viewport pointer is
  read after it. \<^verbatim>\<open>ViewportUpdateSmartFollowEntity\<close>, which reads the entity and
  ride lists, is the parameter \<open>SmartFollowEntity\<close>.
\<close>

definition ViewportUpdatePosition ::
  "Env \<Rightarrow> WindowBase list \<Rightarrow> WindowBase \<times> Viewport \<Rightarrow> (WindowBase \<times> Viewport) \<times> Trace"
where
  "ViewportUpdatePosition env others st =
     (let (window, vp) = st;
          (window, vp) = OnResize env window vp
      in case viewport window of
           None \<Rightarrow> ((window, vp), [])
         | Some ptr \<Rightarrow>
             let window = (if viewport_smart_follow_sprite window \<noteq> None
                           then SmartFollowEntity env window else window)
             in if viewport_target_sprite window \<noteq> None
                then ViewportUpdateFollowSprite env others (window, vp)
                else
                  let (vp, t0) = ViewportSetUndergroundFlag False window vp;
                      window = window\<lparr>savedViewPos := SavedViewAtMapEdge env vp (savedViewPos window)\<rparr>;
                      windowCoords = savedViewPos window;
                      (window, windowCoords) =
                        (if WF_SCROLLING_TO_LOCATION \<in> w_flags window
                         then ScrollingToLocation window vp windowCoords
                         else (window, windowCoords));
                      (vp, t1) = ViewportMove env windowCoords window others ptr vp
                  in ((window, vp), t0 @ t1))"

text \<open>One frame, and the state after a number of frames.\<close>

definition frame :: "Env \<Rightarrow> WindowBase list \<Rightarrow> WindowBase \<times> Viewport \<Rightarrow> WindowBase \<times> Viewport" where
  "frame env others st = fst (ViewportUpdatePosition env others st)"

definition scrolled :: "WindowBase \<times> Viewport \<Rightarrow> bool" where
  "scrolled st =
     (viewPos (snd st) = savedViewPos (fst st) \<and> WF_SCROLLING_TO_LOCATION \<notin> w_flags (fst st))"

definition scroll_ticks :: "Env \<Rightarrow> WindowBase \<times> Viewport \<Rightarrow> nat" where
  "scroll_ticks env st =
     (let target = SavedViewAtMapEdge env (snd st) (savedViewPos (fst st))
      in nat (max \<bar>scr_x target - scr_x (viewPos (snd st))\<bar>
                  \<bar>scr_y target - scr_y (viewPos (snd st))\<bar>) + 1)"

text \<open>
  The step the spec names for a scrolling window: the distance \<open>d\<close> to the target
  on one axis, divided by eight and rounded up, with the sign of \<open>d\<close>.
\<close>

definition scroll_step :: "int \<Rightarrow> int" where
  "scroll_step d = sgn d * ((\<bar>d\<bar> + 7) div 8)"

text \<open>
  A window on the fixed-coordinate path of the update with its scrolling flag
  set, and the larger of its two distances to the target.
\<close>

definition scrolling :: "WindowBase \<times> Viewport \<Rightarrow> bool" where
  "scrolling st =
     (viewport (fst st) \<noteq> None \<and> viewport_target_sprite (fst st) = None
      \<and> viewport_smart_follow_sprite (fst st) = None
      \<and> WF_SCROLLING_TO_LOCATION \<in> w_flags (fst st))"

definition scroll_dist :: "Env \<Rightarrow> WindowBase \<times> Viewport \<Rightarrow> int" where
  "scroll_dist env st =
     (let target = SavedViewAtMapEdge env (snd st) (savedViewPos (fst st))
      in max \<bar>scr_x target - scr_x (viewPos (snd st))\<bar>
             \<bar>scr_y target - scr_y (viewPos (snd st))\<bar>)"

text \<open>
  A resize handler keeps the scrolling of a window when it leaves alone what a
  frame of a scrolling window reads and steers by: the viewport pointer, the two
  follow targets, the scrolling flag and the saved view position of the window,
  and the view position, view size and rotation of the viewport.
\<close>

definition resize_keeps_scrolling :: "Env \<Rightarrow> bool" where
  "resize_keeps_scrolling env =
     (\<forall>w vp.
        viewport (fst (OnResize env w vp)) = viewport w
        \<and> viewport_target_sprite (fst (OnResize env w vp)) = viewport_target_sprite w
        \<and> viewport_smart_follow_sprite (fst (OnResize env w vp)) = viewport_smart_follow_sprite w
        \<and> (WF_SCROLLING_TO_LOCATION \<in> w_flags (fst (OnResize env w vp)))
            = (WF_SCROLLING_TO_LOCATION \<in> w_flags w)
        \<and> savedViewPos (fst (OnResize env w vp)) = savedViewPos w
        \<and> viewPos (snd (OnResize env w vp)) = viewPos vp
        \<and> view_width (snd (OnResize env w vp)) = view_width vp
        \<and> view_height (snd (OnResize env w vp)) = view_height vp
        \<and> rotation (snd (OnResize env w vp)) = rotation vp)"

text \<open>
  A window that scrolls to the view centred on the tile (1024, 1024), with a
  viewport that is 20 view pixels to the right of and 9 above that view.
\<close>

definition scrolling_window :: WindowBase where
  "scrolling_window =
     example_window\<lparr>viewport := Some 1, w_flags := {WF_SCROLLING_TO_LOCATION},
                     savedViewPos := \<lparr>scr_x = - 100, scr_y = 974\<rparr>\<rparr>"

definition scrolling_viewport :: Viewport where
  "scrolling_viewport = centred_viewport\<lparr>viewPos := \<lparr>scr_x = - 80, scr_y = 965\<rparr>\<rparr>"

text \<open>
  The same window while it follows the entity 3, which is no longer in the
  entity list.
\<close>

definition following_window :: WindowBase where
  "following_window = scrolling_window\<lparr>viewport_target_sprite := Some 3\<rparr>"

section \<open>Picking\<close>

text \<open>
  The scene graph is built outside this file; the structs are modelled with the
  members the file reads. Enumerators of scoped enums carry a prefix where the
  plain name is taken. A \<^verbatim>\<open>PaintStruct*\<close> member is an optional node, the list of an
  \<^verbatim>\<open>AttachedPaintStruct\<close> (linked through \<^verbatim>\<open>NextEntry\<close>) is a list.
\<close>

datatype ViewportInteractionItem =
    ItemNone | ItemTerrain | ItemEntity | ItemRide | ItemWater | ItemScenery | ItemFootpath
  | ItemPathAddition | ItemParkEntrance | ItemWall | ItemLargeScenery | ItemLabel | ItemBanner

datatype VisibilityKind = Visible | Partial | Hidden

datatype EntityType = Vehicle | Guest | Staff | OtherEntityType nat

text \<open>
  What \<^verbatim>\<open>ps->Entity->As<Vehicle>()\<close>, \<^verbatim>\<open>vehicle->GetRide()\<close> and the ride type
  descriptor's \<^verbatim>\<open>RIDE_TYPE_FLAG_HAS_TRACK\<close> give for an entity.
\<close>

datatype VehicleRide = NotAVehicle | NoRide | RideHasTrack bool

record EntityBase =
  Type :: EntityType
  vehicle_ride :: VehicleRide

datatype CursorID = TreeDown | FlowerDown | OtherCursor nat

datatype TileElementType = SmallScenery | LargeScenery | Wall | OtherElement nat

text \<open>The entry of a scenery element: its \<^verbatim>\<open>SMALL_SCENERY_FLAG_IS_TREE\<close> flag and its tool.\<close>

record SceneryEntry =
  is_tree :: bool
  tool_id :: CursorID

record TileElement =
  GetType :: TileElementType
  GetEntry :: "SceneryEntry option"

type_synonym ImageId = nat

record AttachedPaintStruct =
  attached_image_id :: ImageId
  RelativePos :: ScreenCoordsXY

datatype PaintStruct = PaintStruct
  (image_id: ImageId) (ScreenPos: ScreenCoordsXY) (MapPos: CoordsXY)
  (InteractionItem: ViewportInteractionItem)
  (Element: "TileElement option") (Entity: "EntityBase option")
  (Attached: "AttachedPaintStruct list")
  (Children: "PaintStruct option") (NextQuadrantEntry: "PaintStruct option")

record InteractionInfo =
  Loc :: CoordsXY
  info_Element :: "TileElement option"
  info_Entity :: "EntityBase option"
  SpriteType :: ViewportInteractionItem

text \<open>The default \<^verbatim>\<open>InteractionInfo\<close> and the one built from a paint struct.\<close>

definition InteractionInfo_none :: InteractionInfo where
  "InteractionInfo_none =
     \<lparr>Loc = \<lparr>map_x = 0, map_y = 0\<rparr>, info_Element = None, info_Entity = None, SpriteType = ItemNone\<rparr>"

definition InteractionInfo_of :: "PaintStruct \<Rightarrow> InteractionInfo" where
  "InteractionInfo_of ps =
     \<lparr>Loc = MapPos ps, info_Element = Element ps, info_Entity = Entity ps,
      SpriteType = InteractionItem ps\<rparr>"

definition IsCursorIdVegetation :: "CursorID \<Rightarrow> bool" where
  "IsCursorIdVegetation cursor =
     (case cursor of TreeDown \<Rightarrow> True | FlowerDown \<Rightarrow> True | _ \<Rightarrow> False)"

definition IsTileElementVegetation :: "TileElement \<Rightarrow> bool" where
  "IsTileElementVegetation tileElement =
     (case GetType tileElement of
        SmallScenery \<Rightarrow>
          (case GetEntry tileElement of
             Some sceneryEntry \<Rightarrow> is_tree sceneryEntry \<or> IsCursorIdVegetation (tool_id sceneryEntry)
           | None \<Rightarrow> False)
      | LargeScenery \<Rightarrow>
          (case GetEntry tileElement of
             Some sceneryEntry \<Rightarrow> IsCursorIdVegetation (tool_id sceneryEntry)
           | None \<Rightarrow> False)
      | Wall \<Rightarrow>
          (case GetEntry tileElement of
             Some sceneryEntry \<Rightarrow> IsCursorIdVegetation (tool_id sceneryEntry)
           | None \<Rightarrow> False)
      | _ \<Rightarrow> False)"

definition hidden_or_partial :: "ViewportFlag set \<Rightarrow> ViewportFlag \<Rightarrow> VisibilityKind" where
  "hidden_or_partial viewFlags invisible = (if invisible \<in> viewFlags then Hidden else Partial)"

definition GetPaintStructVisibility :: "PaintStruct \<Rightarrow> ViewportFlag set \<Rightarrow> VisibilityKind" where
  "GetPaintStructVisibility ps viewFlags =
     (case InteractionItem ps of
        ItemEntity \<Rightarrow>
          (case Entity ps of
             None \<Rightarrow> Visible
           | Some e \<Rightarrow>
               (case Type e of
                  Vehicle \<Rightarrow>
                    if VIEWPORT_FLAG_HIDE_VEHICLES \<in> viewFlags
                    then hidden_or_partial viewFlags VIEWPORT_FLAG_INVISIBLE_VEHICLES
                    else if VIEWPORT_FLAG_HIDE_RIDES \<in> viewFlags then
                      (case vehicle_ride e of
                         RideHasTrack False \<Rightarrow> hidden_or_partial viewFlags VIEWPORT_FLAG_INVISIBLE_RIDES
                       | _ \<Rightarrow> Visible)
                    else Visible
                | Guest \<Rightarrow> if VIEWPORT_FLAG_HIDE_GUESTS \<in> viewFlags then Hidden else Visible
                | Staff \<Rightarrow> if VIEWPORT_FLAG_HIDE_STAFF \<in> viewFlags then Hidden else Visible
                | _ \<Rightarrow> Visible))
      | ItemRide \<Rightarrow>
          if VIEWPORT_FLAG_HIDE_RIDES \<in> viewFlags
          then hidden_or_partial viewFlags VIEWPORT_FLAG_INVISIBLE_RIDES else Visible
      | ItemFootpath \<Rightarrow>
          if VIEWPORT_FLAG_HIDE_PATHS \<in> viewFlags
          then hidden_or_partial viewFlags VIEWPORT_FLAG_INVISIBLE_PATHS else Visible
      | ItemPathAddition \<Rightarrow>
          if VIEWPORT_FLAG_HIDE_PATHS \<in> viewFlags
          then hidden_or_partial viewFlags VIEWPORT_FLAG_INVISIBLE_PATHS else Visible
      | ItemBanner \<Rightarrow>
          if VIEWPORT_FLAG_HIDE_PATHS \<in> viewFlags
          then hidden_or_partial viewFlags VIEWPORT_FLAG_INVISIBLE_PATHS else Visible
      | item \<Rightarrow>
          if item = ItemScenery \<or> item = ItemLargeScenery \<or> item = ItemWall then
            (let hide =
                   (case Element ps of
                      None \<Rightarrow> None
                    | Some el \<Rightarrow>
                        if IsTileElementVegetation el then
                          (if VIEWPORT_FLAG_HIDE_VEGETATION \<in> viewFlags
                           then Some (hidden_or_partial viewFlags VIEWPORT_FLAG_INVISIBLE_VEGETATION)
                           else None)
                        else
                          (if VIEWPORT_FLAG_HIDE_SCENERY \<in> viewFlags
                           then Some (hidden_or_partial viewFlags VIEWPORT_FLAG_INVISIBLE_SCENERY)
                           else None))
             in case hide of
                  Some k \<Rightarrow> k
                | None \<Rightarrow>
                    if item = ItemWall \<and> VIEWPORT_FLAG_UNDERGROUND_INSIDE \<in> viewFlags
                    then Partial else Visible)
          else Visible)"

text \<open>
  The collaborators of a picking query: \<open>IsSpriteInteractedWith\<close> is the opacity
  test of an image at a screen position for the query's pixel (it reads the image
  data of the sprite table); \<open>up_to_Banner\<close> is the comparison
  \<^verbatim>\<open>item <= ViewportInteractionItem::Banner\<close>, whose answer depends on the order of
  the enumerators in a header outside this file. The filter is a bit mask with
  one bit for each item, modelled as a set of items.
\<close>

record PickEnv =
  IsSpriteInteractedWith :: "ImageId \<Rightarrow> ScreenCoordsXY \<Rightarrow> bool"
  up_to_Banner :: "ViewportInteractionItem \<Rightarrow> bool"

definition PSSpriteTypeIsInFilter ::
  "PickEnv \<Rightarrow> PaintStruct \<Rightarrow> ViewportInteractionItem set \<Rightarrow> bool"
where
  "PSSpriteTypeIsInFilter penv ps filter_mask =
     (if InteractionItem ps \<noteq> ItemNone \<and> InteractionItem ps \<noteq> ItemLabel
         \<and> up_to_Banner penv (InteractionItem ps)
      then InteractionItem ps \<in> filter_mask
      else False)"

text \<open>The test that both loops of the query apply to a hit of node \<open>ps\<close>.\<close>

definition hit_counts ::
  "PickEnv \<Rightarrow> ViewportFlag set \<Rightarrow> ViewportInteractionItem set \<Rightarrow> PaintStruct \<Rightarrow> bool"
where
  "hit_counts penv viewFlags filter_mask ps =
     (PSSpriteTypeIsInFilter penv ps filter_mask \<and> GetPaintStructVisibility ps viewFlags = Visible)"

text \<open>The inner loop along \<^verbatim>\<open>Children\<close>: it returns the last node of the chain and the info.\<close>

fun WalkChildren ::
  "PickEnv \<Rightarrow> ViewportFlag set \<Rightarrow> ViewportInteractionItem set \<Rightarrow> PaintStruct \<Rightarrow> InteractionInfo
     \<Rightarrow> PaintStruct \<times> InteractionInfo"
where
  "WalkChildren penv viewFlags filter_mask (PaintStruct im sp mp it el en at ch nq) info =
     (let ps = PaintStruct im sp mp it el en at ch nq;
          info = (if IsSpriteInteractedWith penv (image_id ps) (ScreenPos ps)
                  then (if hit_counts penv viewFlags filter_mask ps then InteractionInfo_of ps else info)
                  else info)
      in case ch of
           None \<Rightarrow> (ps, info)
         | Some next_ps \<Rightarrow> WalkChildren penv viewFlags filter_mask next_ps info)"

text \<open>The loop over the attached paint structs of \<open>ps\<close>.\<close>

fun WalkAttached ::
  "PickEnv \<Rightarrow> ViewportFlag set \<Rightarrow> ViewportInteractionItem set \<Rightarrow> PaintStruct
     \<Rightarrow> AttachedPaintStruct list \<Rightarrow> InteractionInfo \<Rightarrow> InteractionInfo"
where
  "WalkAttached penv viewFlags filter_mask ps [] info = info"
| "WalkAttached penv viewFlags filter_mask ps (attached_ps # rest) info =
     WalkAttached penv viewFlags filter_mask ps rest
       (if IsSpriteInteractedWith penv (attached_image_id attached_ps)
             (ScreenCoordsXY_add (ScreenPos ps) (RelativePos attached_ps))
        then (if hit_counts penv viewFlags filter_mask ps then InteractionInfo_of ps else info)
        else info)"

text \<open>The outer loop along \<^verbatim>\<open>NextQuadrantEntry\<close>, from \<^verbatim>\<open>session->PaintHead\<close>.\<close>

fun WalkQuadrants ::
  "PickEnv \<Rightarrow> ViewportFlag set \<Rightarrow> ViewportInteractionItem set \<Rightarrow> PaintStruct option
     \<Rightarrow> InteractionInfo \<Rightarrow> InteractionInfo"
where
  "WalkQuadrants penv viewFlags filter_mask None info = info"
| "WalkQuadrants penv viewFlags filter_mask (Some (PaintStruct im sp mp it el en at ch nq)) info =
     (let old_ps = PaintStruct im sp mp it el en at ch nq;
          (ps, info) = WalkChildren penv viewFlags filter_mask old_ps info;
          info = WalkAttached penv viewFlags filter_mask ps (Attached ps) info
      in WalkQuadrants penv viewFlags filter_mask nq info)"

record PaintSession =
  PaintHead :: "PaintStruct option"

definition SetInteractionInfoFromPaintSession ::
  "PickEnv \<Rightarrow> PaintSession \<Rightarrow> ViewportFlag set \<Rightarrow> ViewportInteractionItem set \<Rightarrow> InteractionInfo"
where
  "SetInteractionInfoFromPaintSession penv session viewFlags filter_mask =
     WalkQuadrants penv viewFlags filter_mask (PaintHead session) InteractionInfo_none"

text \<open>
  The order of the traversal: the nodes of a children chain from its head, and
  the chains of the quadrant entries one after the other.
\<close>

fun chain :: "PaintStruct \<Rightarrow> PaintStruct list" where
  "chain (PaintStruct im sp mp it el en at ch nq) =
     PaintStruct im sp mp it el en at ch nq # (case ch of None \<Rightarrow> [] | Some c \<Rightarrow> chain c)"

fun traversal :: "PaintStruct option \<Rightarrow> PaintStruct list" where
  "traversal None = []"
| "traversal (Some (PaintStruct im sp mp it el en at ch nq)) =
     chain (PaintStruct im sp mp it el en at ch nq) @ traversal nq"

text \<open>
  A node matches when it is in the filter, is classified as visible, and is
  opaque at the pixel: in its own image or, for a node without children, in one
  of its attached images at the relative offset.
\<close>

definition attached_opaque :: "PickEnv \<Rightarrow> PaintStruct \<Rightarrow> bool" where
  "attached_opaque penv ps =
     list_ex (\<lambda>a. IsSpriteInteractedWith penv (attached_image_id a)
                    (ScreenCoordsXY_add (ScreenPos ps) (RelativePos a)))
       (Attached ps)"

definition node_matches ::
  "PickEnv \<Rightarrow> ViewportFlag set \<Rightarrow> ViewportInteractionItem set \<Rightarrow> PaintStruct \<Rightarrow> bool"
where
  "node_matches penv viewFlags filter_mask ps =
     (hit_counts penv viewFlags filter_mask ps
      \<and> (IsSpriteInteractedWith penv (image_id ps) (ScreenPos ps)
          \<or> (Children ps = None \<and> attached_opaque penv ps)))"

text \<open>The info of the last node of a list that satisfies \<open>m\<close>, or \<open>info\<close> if there is none.\<close>

definition last_match ::
  "(PaintStruct \<Rightarrow> bool) \<Rightarrow> InteractionInfo \<Rightarrow> PaintStruct list \<Rightarrow> InteractionInfo"
where
  "last_match m info nodes =
     (case filter m nodes of [] \<Rightarrow> info | n # ns \<Rightarrow> InteractionInfo_of (last (n # ns)))"

text \<open>The scene graph without the attached paint structs of the nodes that have children.\<close>

fun drop_inner_attached :: "PaintStruct \<Rightarrow> PaintStruct" where
  "drop_inner_attached (PaintStruct im sp mp it el en at ch nq) =
     PaintStruct im sp mp it el en (case ch of None \<Rightarrow> at | Some c \<Rightarrow> [])
       (map_option drop_inner_attached ch) (map_option drop_inner_attached nq)"

text \<open>
  Scenes for a query: every image is at the origin; image 1 and image 2 are
  opaque at the pixel, image 9 too; image 0 is not.
\<close>

definition example_pick :: PickEnv where
  "example_pick =
     \<lparr>IsSpriteInteractedWith = (\<lambda>im p. im = 1 \<or> im = 2 \<or> im = 9), up_to_Banner = (\<lambda>it. True)\<rparr>"

definition scenery_node ::
  "ImageId \<Rightarrow> CoordsXY \<Rightarrow> AttachedPaintStruct list \<Rightarrow> PaintStruct option \<Rightarrow> PaintStruct option
     \<Rightarrow> PaintStruct"
where
  "scenery_node im mp at ch nq =
     PaintStruct im \<lparr>scr_x = 0, scr_y = 0\<rparr> mp ItemScenery None None at ch nq"

text \<open>Two quadrant entries, both opaque at the pixel: the tile (32, 32) first, then (64, 64).\<close>

definition two_sprites :: PaintSession where
  "two_sprites =
     \<lparr>PaintHead = Some (scenery_node 1 \<lparr>map_x = 32, map_y = 32\<rparr> [] None
                   (Some (scenery_node 2 \<lparr>map_x = 64, map_y = 64\<rparr> [] None None)))\<rparr>"

text \<open>
  A chain of two siblings with transparent images; the first one has an attached
  image that is opaque at the pixel.
\<close>

definition first_sibling :: PaintStruct where
  "first_sibling =
     scenery_node 0 \<lparr>map_x = 32, map_y = 32\<rparr>
       [\<lparr>attached_image_id = 9, RelativePos = \<lparr>scr_x = 0, scr_y = 0\<rparr>\<rparr>]
       (Some (scenery_node 0 \<lparr>map_x = 32, map_y = 32\<rparr> [] None None)) None"

definition sibling_with_attached :: PaintSession where
  "sibling_with_attached = \<lparr>PaintHead = Some first_sibling\<rparr>"

text \<open>A single node with a transparent image and an attached image that is opaque at the pixel.\<close>

definition single_with_attached :: PaintSession where
  "single_with_attached =
     \<lparr>PaintHead = Some (scenery_node 0 \<lparr>map_x = 32, map_y = 32\<rparr>
                   [\<lparr>attached_image_id = 9, RelativePos = \<lparr>scr_x = 0, scr_y = 0\<rparr>\<rparr>] None None)\<rparr>"

section \<open>Round trip of the transform\<close>

lemmas transform_defs =
  ViewportPosToMapPos_def Translate3DTo2DWithZ_def Rotate_def DirectionFlipXAxis_def
  signed_divide_int_def sgn_if drop_bit_eq_div Let_def

text \<open>
  C2, as stated, fails: the point (0, 1, 0) is drawn at screen offset (1, 0),
  and the inverse transform sends that offset to (0, 0).
\<close>

theorem roundtrip_exact_counterexample:
  "ViewportPosToMapPos (Translate3DTo2DWithZ 0 \<lparr>loc_x = 0, loc_y = 1, loc_z = 0\<rparr>) 0 0
     \<noteq> \<lparr>map_x = 0, map_y = 1\<rparr>"
  by (simp add: ViewportPosToMapPos_def Translate3DTo2DWithZ_def Rotate_def
      DirectionFlipXAxis_def signed_divide_int_def)

text \<open>
  C2, amended: for each of the four rotations the round trip, with the true z,
  gives back exactly (x, y) whenever x + y is even, and in every case a point
  whose coordinates differ from x and from y by at most 1 (the halving of the
  screen x truncates).
\<close>

theorem roundtrip_within_one:
  assumes "r < 4"
  shows "(even (loc_x P + loc_y P) \<longrightarrow>
           ViewportPosToMapPos (Translate3DTo2DWithZ r P) (loc_z P) r
             = \<lparr>map_x = loc_x P, map_y = loc_y P\<rparr>)
       \<and> \<bar>map_x (ViewportPosToMapPos (Translate3DTo2DWithZ r P) (loc_z P) r)
            - loc_x P\<bar> \<le> 1
       \<and> \<bar>map_y (ViewportPosToMapPos (Translate3DTo2DWithZ r P) (loc_z P) r)
            - loc_y P\<bar> \<le> 1"
proof -
  from assms consider "r = 0" | "r = 1" | "r = 2" | "r = 3"
    by linarith
  then show ?thesis
  proof cases
    case 1 then show ?thesis
      by (auto simp: transform_defs elim!: evenE oddE)
  next
    case 2 then show ?thesis
      by (auto simp: transform_defs elim!: evenE oddE)
  next
    case 3 then show ?thesis
      by (auto simp: transform_defs elim!: evenE oddE)
  next
    case 4 then show ?thesis
      by (auto simp: transform_defs elim!: evenE oddE)
  qed
qed

theorem roundtrip_within_one_witness:
  "(3::nat) < 4
   \<and> ViewportPosToMapPos (Translate3DTo2DWithZ 3 \<lparr>loc_x = 64, loc_y = 96, loc_z = 16\<rparr>) 16 3
       = \<lparr>map_x = 64, map_y = 96\<rparr>"
  using roundtrip_within_one [of 3 "\<lparr>loc_x = 64, loc_y = 96, loc_z = 16\<rparr>"] by simp

section \<open>Invalidation of a world rectangle\<close>

lemmas invalidate_defs =
  ViewportInvalidate_def Translate3DTo2DWithZ_def Rotate_def ApplyInversedTo_def
  ScreenCoordsXY_add_def ScreenCoordsXY_sub_def

text \<open>
  C1, as stated, fails. The viewport of 200 by 100 pixels at screen position
  (100, 50), zoom 0, rotation 0, centred on the world origin, gets the dirty
  rectangle (168, 84)-(232, 148); the claim names (-16, -16)-(16, 16) moved by
  the screen position, which is (84, 34)-(116, 66). The overload for a world
  point, called for the origin with 16 as width and as both heights, does not
  give that rectangle either, but (184, 84)-(216, 116).
\<close>

theorem invalidate_origin_counterexample:
  "centre_2d_coordinates example_env \<lparr>loc_x = 0, loc_y = 0, loc_z = 0\<rparr> centred_viewport
     = Some (viewPos centred_viewport)
   \<and> dirty (snd (ViewportsInvalidate example_env [(1, centred_viewport)] 0 0 0 0 (- 1) no_damage))
     = [\<lparr>Point1 = \<lparr>scr_x = 168, scr_y = 84\<rparr>, Point2 = \<lparr>scr_x = 232, scr_y = 148\<rparr>\<rparr>]
   \<and> dirty (snd (ViewportsInvalidate example_env [(1, centred_viewport)] 0 0 0 0 (- 1) no_damage))
     \<noteq> [\<lparr>Point1 = \<lparr>scr_x = 100 + (- 16), scr_y = 50 + (- 16)\<rparr>,
          Point2 = \<lparr>scr_x = 100 + 16, scr_y = 50 + 16\<rparr>\<rparr>]
   \<and> dirty (snd (ViewportsInvalidatePos example_env [(1, centred_viewport)]
                    \<lparr>loc_x = 0, loc_y = 0, loc_z = 0\<rparr> 16 16 16 (- 1) no_damage))
     = [\<lparr>Point1 = \<lparr>scr_x = 184, scr_y = 84\<rparr>, Point2 = \<lparr>scr_x = 216, scr_y = 116\<rparr>\<rparr>]"
  by (simp add: invalidate_defs centre_2d_coordinates_def example_env_def
      centred_viewport_def no_damage_def)

text \<open>
  C1, amended: for a registry holding one viewport at zoom 0 and rotation 0,
  centred on the world origin, cached as visible and within the requested
  maximum zoom, the call for the world rectangle x = 0, y = 0, z0 = 0, z1 = 0
  marks as dirty exactly the view rectangle (-32, -16)-(32, 48) (the centre
  (16, 16) of the tile, drawn at (0, 16), with the fixed margin of 32), cut to the
  view rectangle of the viewport and moved by the screen position minus the view
  position; it marks nothing when that rectangle ends left of or above the view.
\<close>

theorem invalidate_origin_rect:
  assumes "zoom vp = 0" and "rotation vp = 0" and "visibility vp = VisibilityCache.Visible"
    and "centre_2d_coordinates env \<lparr>loc_x = 0, loc_y = 0, loc_z = 0\<rparr> vp = Some (viewPos vp)"
    and "maxZoom = - 1 \<or> 0 \<le> maxZoom"
  shows "ViewportsInvalidate env [(ptr, vp)] 0 0 0 0 maxZoom dmg =
     ([(ptr, vp)],
      if scr_x (viewPos vp) < 32 \<and> scr_y (viewPos vp) < 48
      then dmg\<lparr>dirty := dirty dmg @
         [\<lparr>Point1 =
             \<lparr>scr_x = scr_x (pos vp) + (max (- 32) (scr_x (viewPos vp)) - scr_x (viewPos vp)),
              scr_y = scr_y (pos vp) + (max (- 16) (scr_y (viewPos vp)) - scr_y (viewPos vp))\<rparr>,
           Point2 =
             \<lparr>scr_x = scr_x (pos vp)
                 + (min 32 (scr_x (viewPos vp) + view_width vp) - scr_x (viewPos vp)),
              scr_y = scr_y (pos vp)
                 + (min 48 (scr_y (viewPos vp) + view_height vp) - scr_y (viewPos vp))\<rparr>\<rparr>]\<rparr>
      else dmg)"
  using assms by (auto simp add: invalidate_defs Let_def)

theorem invalidate_origin_rect_witness:
  "ViewportsInvalidate example_env [(1, centred_viewport)] 0 0 0 0 (- 1) no_damage =
     ([(1, centred_viewport)],
      \<lparr>dirty = [\<lparr>Point1 = \<lparr>scr_x = 168, scr_y = 84\<rparr>, Point2 = \<lparr>scr_x = 232, scr_y = 148\<rparr>\<rparr>],
       visible_queries = []\<rparr>)"
proof -
  have z: "zoom centred_viewport = 0" and r: "rotation centred_viewport = 0"
    and v: "visibility centred_viewport = VisibilityCache.Visible"
    by (simp_all add: centred_viewport_def)
  have c: "centre_2d_coordinates example_env \<lparr>loc_x = 0, loc_y = 0, loc_z = 0\<rparr> centred_viewport
             = Some (viewPos centred_viewport)"
    by (simp add: centre_2d_coordinates_def Translate3DTo2DWithZ_def Rotate_def
        example_env_def centred_viewport_def)
  have m: "(- 1 :: int) = - 1 \<or> 0 \<le> (- 1 :: int)" by simp
  show ?thesis
    using invalidate_origin_rect [OF z r v c m, of 1 no_damage]
    by (simp add: centred_viewport_def no_damage_def)
qed

section \<open>Invalidation and the cached visibility\<close>

text \<open>
  C9, as stated, fails: a viewport with unknown visibility whose owner is the
  main window is invalidated without any call of the visibility test.
\<close>

theorem invalidate_unknown_counterexample:
  "visibility unknown_viewport = Unknown
   \<and> visible_queries (snd (ViewportInvalidate
        (example_env\<lparr>GetOwner := (\<lambda>p. Some main_window)\<rparr>) 1 unknown_viewport whole_view no_damage))
      = []"
  by (simp add: invalidate_defs Let_def unknown_viewport_def centred_viewport_def
      main_window_def example_window_def example_env_def no_damage_def whole_view_def)

text \<open>
  C9, amended: an invalidation of a viewport cached as covered emits no dirty
  rectangle and changes no state. For a viewport cached as unknown whose owner
  exists and is not the main window, one invalidation makes exactly one
  visibility test, on that owner, and when the test says not visible it emits no
  dirty rectangle (the test alone has written the cache). For a viewport cached
  as unknown without owner, or owned by the main window, no visibility test is
  made.
\<close>

theorem invalidate_visibility_cache:
  "(visibility vp = Covered \<longrightarrow> ViewportInvalidate env ptr vp rect dmg = (vp, dmg))
   \<and> (visibility vp = Unknown \<longrightarrow> GetOwner env ptr = Some owner
        \<longrightarrow> classification owner \<noteq> MainWindow \<longrightarrow>
        visible_queries (snd (ViewportInvalidate env ptr vp rect dmg))
          = visible_queries dmg @ [owner]
        \<and> (\<not> fst (WindowIsVisible env owner) \<longrightarrow>
             ViewportInvalidate env ptr vp rect dmg
               = (vp\<lparr>visibility := snd (WindowIsVisible env owner)\<rparr>,
                  dmg\<lparr>visible_queries := visible_queries dmg @ [owner]\<rparr>)))
   \<and> (visibility vp = Unknown \<longrightarrow>
        (GetOwner env ptr = None \<or> GetOwner env ptr = Some owner \<and> classification owner = MainWindow)
        \<longrightarrow> visible_queries (snd (ViewportInvalidate env ptr vp rect dmg)) = visible_queries dmg)"
  by (auto simp add: ViewportInvalidate_def Let_def split: prod.splits)

theorem invalidate_visibility_cache_witness:
  "ViewportInvalidate example_env 1 (centred_viewport\<lparr>visibility := Covered\<rparr>) whole_view no_damage
     = (centred_viewport\<lparr>visibility := Covered\<rparr>, no_damage)
   \<and> ViewportInvalidate
        (example_env\<lparr>GetOwner := (\<lambda>p. Some hidden_window),
                      WindowIsVisible := (\<lambda>w. (False, Covered))\<rparr>)
        1 unknown_viewport whole_view no_damage
     = (unknown_viewport\<lparr>visibility := Covered\<rparr>,
        \<lparr>dirty = [], visible_queries = [hidden_window]\<rparr>)
   \<and> visible_queries (snd (ViewportInvalidate
        (example_env\<lparr>GetOwner := (\<lambda>p. Some main_window)\<rparr>) 1 unknown_viewport whole_view no_damage))
     = []"
proof -
  let ?e2 = "example_env\<lparr>GetOwner := (\<lambda>p. Some hidden_window),
                          WindowIsVisible := (\<lambda>w. (False, Covered))\<rparr>"
  let ?e3 = "example_env\<lparr>GetOwner := (\<lambda>p. Some main_window)\<rparr>"
  have a: "visibility (centred_viewport\<lparr>visibility := Covered\<rparr>) = Covered" by simp
  have b: "visibility unknown_viewport = Unknown" "GetOwner ?e2 1 = Some hidden_window"
    "classification hidden_window \<noteq> MainWindow" "\<not> fst (WindowIsVisible ?e2 hidden_window)"
    by (simp_all add: unknown_viewport_def hidden_window_def example_window_def)
  have c: "GetOwner ?e3 1 = Some main_window" "classification main_window = MainWindow"
    by (simp_all add: main_window_def)
  show ?thesis
    using a b c
      invalidate_visibility_cache [of "centred_viewport\<lparr>visibility := Covered\<rparr>"
        example_env 1 whole_view no_damage hidden_window]
      invalidate_visibility_cache [of unknown_viewport ?e2 1 whole_view no_damage hidden_window]
      invalidate_visibility_cache [of unknown_viewport ?e3 1 whole_view no_damage main_window]
    by (simp add: no_damage_def)
qed

section \<open>Capacity of the registry\<close>

lemma ViewportCreate_length:
  "length viewports \<le> kMaxViewportCount env \<Longrightarrow>
   length (fst (ViewportCreate env (viewports, w) screenCoords wd ht focus)) \<le> kMaxViewportCount env"
  by (auto simp: ViewportCreate_def Let_def split: option.splits)

lemma ViewportRemove_length: "length (ViewportRemove viewports ptr) \<le> length viewports"
  by (simp add: ViewportRemove_def)

lemma live_registry_bounded: "live_registry env reg \<Longrightarrow> length reg \<le> kMaxViewportCount env"
proof (induction rule: live_registry.induct)
  case start
  show ?case by simp
next
  case (create reg w screenCoords wd ht focus)
  from create.IH show ?case by (rule ViewportCreate_length)
next
  case (remove reg ptr)
  from remove.IH show ?case using ViewportRemove_length [of reg ptr] by linarith
qed

text \<open>
  C5: a registry that the program can hold never has more than
  \<open>kMaxViewportCount\<close> viewports, and a create call on a registry at capacity
  returns the registry and the calling window as they were: no viewport is
  added, none is changed, and the window's viewport pointer is not set.
\<close>

theorem registry_capacity:
  assumes "live_registry env reg"
  shows "length reg \<le> kMaxViewportCount env
     \<and> (kMaxViewportCount env \<le> length reg \<longrightarrow>
          ViewportCreate env (reg, w) screenCoords wd ht focus = (reg, w)
          \<and> viewport (snd (ViewportCreate env (reg, w) screenCoords wd ht focus)) = viewport w)"
  using live_registry_bounded [OF assms] by (simp add: ViewportCreate_def)

theorem registry_capacity_witness:
  "live_registry example_env full_registry
   \<and> length full_registry = 2 \<and> kMaxViewportCount example_env = 2
   \<and> ViewportCreate example_env (full_registry, example_window) \<lparr>scr_x = 0, scr_y = 200\<rparr> 64 64 origin_focus
       = (full_registry, example_window)
   \<and> viewport (snd (ViewportCreate example_env (full_registry, example_window)
                      \<lparr>scr_x = 0, scr_y = 200\<rparr> 64 64 origin_focus)) = None"
proof -
  have live: "live_registry example_env full_registry"
    unfolding full_registry_def by (intro live_registry.create live_registry.start)
  have len: "length full_registry = 2"
    by (simp add: full_registry_def ViewportCreate_def example_env_def Let_def
        centre_2d_coordinates_def GetPos_def origin_focus_def)
  have cap: "kMaxViewportCount example_env = 2" by (simp add: example_env_def)
  have none: "viewport example_window = None" by (simp add: example_window_def)
  show ?thesis
    using live len cap none
      registry_capacity [OF live, of example_window "\<lparr>scr_x = 0, scr_y = 200\<rparr>" 64 64 origin_focus]
    by simp
qed

section \<open>Moving a viewport\<close>

lemmas move_eval_defs =
  ViewportMove_def x_diff_of_def y_diff_of_def ApplyInversedTo_def ApplyTo_def
  clamp_to_screen_x_def clamp_to_screen_y_def Let_def ViewportShiftPixels_def
  skip_window_def first_piece_y_def second_piece_y_def first_piece_x_def second_piece_x_def
  RedrawWithoutWindow_def reaches_clamping_def repaint_only_returns_def
  example_env_def owner_window_def lower_window_def corner_viewport_def example_window_def
  offscreen_viewport_def

lemma ViewportMove_viewport:
  "fst (ViewportMove env coords w others ptr vp) = vp\<lparr>viewPos := coords\<rparr>"
  by (simp add: ViewportMove_def Let_def split: prod.splits)

text \<open>
  C3: the invariant is broken while \<^verbatim>\<open>ViewportRedrawAfterShift\<close> repaints a piece
  cut off along the y axis. The viewport of 200 by 200 pixels at zoom 0 satisfies
  the invariant; it is moved by 8 view pixels while a second window covers its
  lower half. Both drawing calls for the upper piece run while the viewport
  object has height 100 and \<open>view_height\<close> 200, where the zoom applied to the
  height is 100.
\<close>

theorem shift_repaint_view_height_stale:
  "view_width corner_viewport = ApplyTo (zoom corner_viewport) (width corner_viewport)
   \<and> view_height corner_viewport = ApplyTo (zoom corner_viewport) (height corner_viewport)
   \<and> map (\<lambda>(v, c). (c, height v, view_height v, ApplyTo (zoom v) (height v)))
        (snd (ViewportMove example_env \<lparr>scr_x = 8, scr_y = 0\<rparr> owner_window [lower_window] 1
                corner_viewport))
      = [(DrawingEngineCopyRect 0 0 200 100 (- 8) 0, 100, 200, 100),
         (WindowDrawAll 192 0 200 100, 100, 200, 100)]"
  by (simp add: move_eval_defs)

text \<open>
  C4, as stated, fails: the viewport that lies off the left edge of the screen
  is clamped to a width of -100, the move is aborted, and the viewport that is
  left differs from the one at entry (its \<open>viewPos\<close> is the requested one).
\<close>

theorem move_abort_counterexample:
  "reaches_clamping example_env \<lparr>scr_x = 8, scr_y = 0\<rparr> owner_window offscreen_viewport
   \<and> width (clamp_to_screen_x example_env (zoom offscreen_viewport)
              (offscreen_viewport\<lparr>viewPos := \<lparr>scr_x = 8, scr_y = 0\<rparr>\<rparr>)) = - 100
   \<and> fst (ViewportMove example_env \<lparr>scr_x = 8, scr_y = 0\<rparr> owner_window [] 1 offscreen_viewport)
       \<noteq> offscreen_viewport"
  by (simp add: move_eval_defs)

text \<open>
  C4, amended: when the clamping to the screen edges makes the width or the
  height non-positive, the move is aborted: nothing is drawn, and at return
  every field of the viewport except \<open>viewPos\<close> has its value at entry, while
  \<open>viewPos\<close> is the requested view position.
\<close>

theorem move_abort_keeps_new_viewPos:
  assumes "reaches_clamping env coords w vp"
    and "width (clamp_to_screen_x env (zoom vp) (vp\<lparr>viewPos := coords\<rparr>)) \<le> 0
       \<or> height (clamp_to_screen_y env (zoom vp)
                   (clamp_to_screen_x env (zoom vp) (vp\<lparr>viewPos := coords\<rparr>))) \<le> 0"
  shows "ViewportMove env coords w others ptr vp = (vp\<lparr>viewPos := coords\<rparr>, [])"
  using assms
  by (auto simp add: ViewportMove_def Let_def reaches_clamping_def repaint_only_returns_def)

theorem move_abort_keeps_new_viewPos_witness:
  "ViewportMove example_env \<lparr>scr_x = 8, scr_y = 0\<rparr> owner_window [] 1 offscreen_viewport
     = (offscreen_viewport\<lparr>viewPos := \<lparr>scr_x = 8, scr_y = 0\<rparr>\<rparr>, [])"
proof -
  have a: "reaches_clamping example_env \<lparr>scr_x = 8, scr_y = 0\<rparr> owner_window offscreen_viewport"
    by (simp add: move_eval_defs)
  have b: "width (clamp_to_screen_x example_env (zoom offscreen_viewport)
                    (offscreen_viewport\<lparr>viewPos := \<lparr>scr_x = 8, scr_y = 0\<rparr>\<rparr>)) \<le> 0"
    by (simp add: move_eval_defs)
  show ?thesis
    using move_abort_keeps_new_viewPos [OF a disjI1 [OF b]] by simp
qed

text \<open>
  C10: a call of \<^verbatim>\<open>ViewportMove\<close> that gets to the clamping returns with the
  screen position, width, height, \<open>view_width\<close> and \<open>view_height\<close> of the viewport as
  they were at entry, and with \<open>viewPos\<close> equal to the requested view position;
  no other field differs either.
\<close>

theorem move_clamping_is_transient:
  assumes "reaches_clamping env coords w vp"
  shows "pos (fst (ViewportMove env coords w others ptr vp)) = pos vp
     \<and> width (fst (ViewportMove env coords w others ptr vp)) = width vp
     \<and> height (fst (ViewportMove env coords w others ptr vp)) = height vp
     \<and> view_width (fst (ViewportMove env coords w others ptr vp)) = view_width vp
     \<and> view_height (fst (ViewportMove env coords w others ptr vp)) = view_height vp
     \<and> viewPos (fst (ViewportMove env coords w others ptr vp)) = coords
     \<and> fst (ViewportMove env coords w others ptr vp) = vp\<lparr>viewPos := coords\<rparr>"
  by (simp add: ViewportMove_viewport)

theorem move_clamping_is_transient_witness:
  "reaches_clamping example_env \<lparr>scr_x = 8, scr_y = 0\<rparr> owner_window corner_viewport
   \<and> fst (ViewportMove example_env \<lparr>scr_x = 8, scr_y = 0\<rparr> owner_window [lower_window] 1
            corner_viewport)
       = corner_viewport\<lparr>viewPos := \<lparr>scr_x = 8, scr_y = 0\<rparr>\<rparr>"
proof -
  have a: "reaches_clamping example_env \<lparr>scr_x = 8, scr_y = 0\<rparr> owner_window corner_viewport"
    by (simp add: move_eval_defs)
  show ?thesis
    using a move_clamping_is_transient [OF a, of "[lower_window]" 1] by simp
qed

section \<open>Scrolling to a location\<close>

lemma scroll_step_less: "d \<noteq> 0 \<Longrightarrow> \<bar>d - scroll_step d\<bar> < \<bar>d\<bar>"
  by (auto simp: scroll_step_def sgn_if)

lemma ScrollingToLocation_eq:
  "ScrollingToLocation window vp t =
     (if t = viewPos vp then window\<lparr>w_flags := w_flags window - {WF_SCROLLING_TO_LOCATION}\<rparr> else window,
      \<lparr>scr_x = scr_x (viewPos vp) + scroll_step (scr_x t - scr_x (viewPos vp)),
       scr_y = scr_y (viewPos vp) + scroll_step (scr_y t - scr_y (viewPos vp))\<rparr>)"
  by (auto simp: ScrollingToLocation_def scroll_step_def sgn_if signed_divide_int_def Let_def ScreenCoordsXY.equality)

lemma half_floor_trunc:
  fixes a :: int
  shows "(a div 2 - a sdiv 2 = 0 \<and> a div 2 + a sdiv 2 = a)
       \<or> (a div 2 - a sdiv 2 = 0 \<and> a div 2 + a sdiv 2 = a - 1)
       \<or> (a div 2 - a sdiv 2 = - 1 \<and> a div 2 + a sdiv 2 = a)"
proof (cases "0 \<le> a")
  case True
  then have "a sdiv 2 = a div 2" by (simp add: signed_divide_int_def sgn_if)
  then show ?thesis by presburger
next
  case False
  then have "a sdiv 2 = - ((- a) div 2)" by (simp add: signed_divide_int_def sgn_if)
  then show ?thesis by presburger
qed

lemma halves_one_coordinate:
  fixes rx ry :: int
  shows "((rx + ry) div 2 - (ry - rx) sdiv 2 = rx \<and> (rx + ry) div 2 + (ry - rx) sdiv 2 = ry)
       \<or> ((rx + ry) div 2 - (ry - rx) sdiv 2 = rx \<and> (rx + ry) div 2 + (ry - rx) sdiv 2 = ry - 1)
       \<or> ((rx + ry) div 2 - (ry - rx) sdiv 2 = rx - 1 \<and> (rx + ry) div 2 + (ry - rx) sdiv 2 = ry)"
proof -
  have "((ry - rx) + rx * 2) div 2 = (ry - rx) div 2 + rx" by simp
  moreover have "(ry - rx) + rx * 2 = rx + ry" by simp
  ultimately have "(rx + ry) div 2 = (ry - rx) div 2 + rx" by simp
  then show ?thesis using half_floor_trunc [of "ry - rx"] by linarith
qed

lemmas turn_defs =
  ViewportPosToMapPos_def Translate3DTo2DWithZ_def Rotate_def DirectionFlipXAxis_def
  drop_bit_eq_div Let_def

lemma roundtrip_one_coordinate:
  fixes p :: CoordsXY and r :: nat
  defines "q \<equiv> ViewportPosToMapPos
                 (Translate3DTo2DWithZ r \<lparr>loc_x = map_x p, loc_y = map_y p, loc_z = 0\<rparr>) 0 r"
  shows "(map_x q = map_x p \<and> map_y q = map_y p)
       \<or> (map_x q = map_x p \<and> \<bar>map_y q - map_y p\<bar> = 1)
       \<or> (map_y q = map_y p \<and> \<bar>map_x q - map_x p\<bar> = 1)"
proof -
  have "r mod 4 < 4" by simp
  then consider "r mod 4 = 0" | "r mod 4 = 1" | "r mod 4 = 2" | "r mod 4 = 3" by linarith
  then show ?thesis
  proof cases
    case 1
    then have f: "r * 3 mod 4 = 0" by presburger
    have qx: "map_x q = (map_x p + map_y p) div 2 - (map_y p - map_x p) sdiv 2"
      and qy: "map_y q = (map_x p + map_y p) div 2 + (map_y p - map_x p) sdiv 2"
      using 1 f by (simp_all add: q_def turn_defs)
    from halves_one_coordinate [of "map_x p" "map_y p"] show ?thesis
      unfolding qx qy by (elim disjE conjE) simp_all
  next
    case 2
    then have f: "r * 3 mod 4 = 3" by presburger
    have qx: "map_x q = - ((map_y p + - map_x p) div 2 + (- map_x p - map_y p) sdiv 2)"
      and qy: "map_y q = (map_y p + - map_x p) div 2 - (- map_x p - map_y p) sdiv 2"
      using 2 f by (simp_all add: q_def turn_defs)
    from halves_one_coordinate [of "map_y p" "- map_x p"] show ?thesis
      unfolding qx qy by (elim disjE conjE) simp_all
  next
    case 3
    then have f: "r * 3 mod 4 = 2" by presburger
    have qx: "map_x q = - ((- map_x p + - map_y p) div 2 - (- map_y p - - map_x p) sdiv 2)"
      and qy: "map_y q = - ((- map_x p + - map_y p) div 2 + (- map_y p - - map_x p) sdiv 2)"
      using 3 f by (simp_all add: q_def turn_defs)
    from halves_one_coordinate [of "- map_x p" "- map_y p"] show ?thesis
      unfolding qx qy by (elim disjE conjE) simp_all
  next
    case 4
    then have f: "r * 3 mod 4 = 1" by presburger
    have qx: "map_x q = (- map_y p + map_x p) div 2 + (map_x p - - map_y p) sdiv 2"
      and qy: "map_y q = - ((- map_y p + map_x p) div 2 - (map_x p - - map_y p) sdiv 2)"
      using 4 f by (simp_all add: q_def turn_defs)
    from halves_one_coordinate [of "- map_y p" "map_x p"] show ?thesis
      unfolding qx qy by (elim disjE conjE) simp_all
  qed
qed

lemma ClampToMap_simple:
  assumes "kMapMinimumXY env \<le> map_x (MapSizeMinus2 env)"
    and "kMapMinimumXY env \<le> map_y (MapSizeMinus2 env)"
  shows "ClampToMap env m =
     (\<lparr>map_x = min (map_x (MapSizeMinus2 env)) (max (kMapMinimumXY env) (map_x m)),
       map_y = min (map_y (MapSizeMinus2 env)) (max (kMapMinimumXY env) (map_y m))\<rparr>,
      map_x m < kMapMinimumXY env \<or> map_x m > map_x (MapSizeMinus2 env)
      \<or> map_y m < kMapMinimumXY env \<or> map_y m > map_y (MapSizeMinus2 env))"
proof -
  obtain x y where m: "m = \<lparr>map_x = x, map_y = y\<rparr>" by (cases m) simp
  show ?thesis using assms unfolding m ClampToMap_def Let_def
    by (simp add: min_def max_def)
qed

lemma ClampToMap_near:
  assumes lo: "kMapMinimumXY env \<le> map_x (MapSizeMinus2 env)"
      "kMapMinimumXY env \<le> map_y (MapSizeMinus2 env)"
    and m: "m = fst (ClampToMap env m0)"
    and near: "(map_x q = map_x m \<and> map_y q = map_y m)
       \<or> (map_x q = map_x m \<and> \<bar>map_y q - map_y m\<bar> = 1)
       \<or> (map_y q = map_y m \<and> \<bar>map_x q - map_x m\<bar> = 1)"
    and edge: "snd (ClampToMap env q)"
  shows "fst (ClampToMap env q) = m"
proof -
  have rx: "kMapMinimumXY env \<le> map_x m" "map_x m \<le> map_x (MapSizeMinus2 env)"
    using lo unfolding m ClampToMap_simple [OF lo] by simp_all
  have ry: "kMapMinimumXY env \<le> map_y m" "map_y m \<le> map_y (MapSizeMinus2 env)"
    using lo unfolding m ClampToMap_simple [OF lo] by simp_all
  have out: "map_x q < kMapMinimumXY env \<or> map_x q > map_x (MapSizeMinus2 env)
      \<or> map_y q < kMapMinimumXY env \<or> map_y q > map_y (MapSizeMinus2 env)"
    using edge unfolding ClampToMap_simple [OF lo] by simp
  have x: "min (map_x (MapSizeMinus2 env)) (max (kMapMinimumXY env) (map_x q)) = map_x m"
    using near rx ry out by linarith
  have y: "min (map_y (MapSizeMinus2 env)) (max (kMapMinimumXY env) (map_y q)) = map_y m"
    using near rx ry out by linarith
  show ?thesis
    unfolding ClampToMap_simple [OF lo] using x y by (simp add: CoordsXY.equality)
qed

lemma SavedViewAtMapEdge_unfold:
  "SavedViewAtMapEdge env vp t =
     (let cl = ClampToMap env (ViewportPosToMapPos
                 \<lparr>scr_x = scr_x t + view_width vp sdiv 2, scr_y = scr_y t + view_height vp sdiv 2\<rparr>
                 0 (rotation vp))
      in if snd cl \<and> map_x (fst cl) \<noteq> LOCATION_NULL env
         then \<lparr>scr_x = scr_x (Translate3DTo2DWithZ (rotation vp)
                           \<lparr>loc_x = map_x (fst cl), loc_y = map_y (fst cl), loc_z = 0\<rparr>)
                         - view_width vp sdiv 2,
               scr_y = scr_y (Translate3DTo2DWithZ (rotation vp)
                           \<lparr>loc_x = map_x (fst cl), loc_y = map_y (fst cl), loc_z = 0\<rparr>)
                         - view_height vp sdiv 2\<rparr>
         else t)"
  by (simp add: SavedViewAtMapEdge_def centre_2d_coordinates_def Let_def split: prod.splits)

lemma SavedViewAtMapEdge_idem:
  assumes lo: "kMapMinimumXY env \<le> map_x (MapSizeMinus2 env)"
      "kMapMinimumXY env \<le> map_y (MapSizeMinus2 env)"
  shows "SavedViewAtMapEdge env vp (SavedViewAtMapEdge env vp s) = SavedViewAtMapEdge env vp s"
proof -
  define m0 where "m0 = ViewportPosToMapPos
      \<lparr>scr_x = scr_x s + view_width vp sdiv 2, scr_y = scr_y s + view_height vp sdiv 2\<rparr>
      0 (rotation vp)"
  define m where "m = fst (ClampToMap env m0)"
  define s' where "s' =
     \<lparr>scr_x = scr_x (Translate3DTo2DWithZ (rotation vp) \<lparr>loc_x = map_x m, loc_y = map_y m, loc_z = 0\<rparr>)
               - view_width vp sdiv 2,
      scr_y = scr_y (Translate3DTo2DWithZ (rotation vp) \<lparr>loc_x = map_x m, loc_y = map_y m, loc_z = 0\<rparr>)
               - view_height vp sdiv 2\<rparr>"
  show ?thesis
  proof (cases "snd (ClampToMap env m0) \<and> map_x m \<noteq> LOCATION_NULL env")
    case False
    then have "SavedViewAtMapEdge env vp s = s"
      by (auto simp add: SavedViewAtMapEdge_unfold [of env vp s] Let_def m0_def m_def)
    then show ?thesis by simp
  next
    case True
    then have fs: "SavedViewAtMapEdge env vp s = s'"
      by (simp add: SavedViewAtMapEdge_unfold [of env vp s] Let_def m0_def m_def s'_def)
    define q where "q = ViewportPosToMapPos
        (Translate3DTo2DWithZ (rotation vp) \<lparr>loc_x = map_x m, loc_y = map_y m, loc_z = 0\<rparr>)
        0 (rotation vp)"
    have mid: "\<lparr>scr_x = scr_x s' + view_width vp sdiv 2, scr_y = scr_y s' + view_height vp sdiv 2\<rparr>
        = Translate3DTo2DWithZ (rotation vp) \<lparr>loc_x = map_x m, loc_y = map_y m, loc_z = 0\<rparr>"
      by (simp add: s'_def)
    have near: "(map_x q = map_x m \<and> map_y q = map_y m)
       \<or> (map_x q = map_x m \<and> \<bar>map_y q - map_y m\<bar> = 1)
       \<or> (map_y q = map_y m \<and> \<bar>map_x q - map_x m\<bar> = 1)"
      unfolding q_def by (rule roundtrip_one_coordinate)
    have "SavedViewAtMapEdge env vp s' = s'"
    proof (cases "snd (ClampToMap env q)")
      case False
      then show ?thesis
        by (simp add: SavedViewAtMapEdge_unfold [of env vp s'] mid Let_def q_def)
    next
      case edge: True
      have "fst (ClampToMap env q) = m"
        using lo m_def near edge by (rule ClampToMap_near)
      with edge True have "SavedViewAtMapEdge env vp s' =
          \<lparr>scr_x = scr_x (Translate3DTo2DWithZ (rotation vp)
                           \<lparr>loc_x = map_x m, loc_y = map_y m, loc_z = 0\<rparr>) - view_width vp sdiv 2,
           scr_y = scr_y (Translate3DTo2DWithZ (rotation vp)
                           \<lparr>loc_x = map_x m, loc_y = map_y m, loc_z = 0\<rparr>) - view_height vp sdiv 2\<rparr>"
        by (simp add: SavedViewAtMapEdge_unfold [of env vp s'] mid Let_def q_def [symmetric])
      then show ?thesis by (simp add: s'_def)
    qed
    with fs show ?thesis by simp
  qed
qed

lemma SavedViewAtMapEdge_cong:
  "view_width vp' = view_width vp \<Longrightarrow> view_height vp' = view_height vp \<Longrightarrow> rotation vp' = rotation vp
   \<Longrightarrow> SavedViewAtMapEdge env vp' s = SavedViewAtMapEdge env vp s"
  by (simp add: SavedViewAtMapEdge_unfold Let_def)

lemma ViewportSetUndergroundFlag_fields:
  "fst (ViewportSetUndergroundFlag u w vp)
     = vp\<lparr>flags := flags (fst (ViewportSetUndergroundFlag u w vp))\<rparr>"
  by (simp add: ViewportSetUndergroundFlag_def Let_def)

lemma frame_scrolling:
  assumes keep: "resize_keeps_scrolling env" and sc: "scrolling (window, vp)"
  shows "savedViewPos (fst (frame env others (window, vp)))
           = SavedViewAtMapEdge env vp (savedViewPos window)"
    and "viewPos (snd (frame env others (window, vp))) =
           \<lparr>scr_x = scr_x (viewPos vp)
               + scroll_step (scr_x (SavedViewAtMapEdge env vp (savedViewPos window))
                              - scr_x (viewPos vp)),
            scr_y = scr_y (viewPos vp)
               + scroll_step (scr_y (SavedViewAtMapEdge env vp (savedViewPos window))
                              - scr_y (viewPos vp))\<rparr>"
    and "(WF_SCROLLING_TO_LOCATION \<in> w_flags (fst (frame env others (window, vp))))
           = (SavedViewAtMapEdge env vp (savedViewPos window) \<noteq> viewPos vp)"
    and "viewport (fst (frame env others (window, vp))) = viewport window"
    and "viewport_target_sprite (fst (frame env others (window, vp))) = None"
    and "viewport_smart_follow_sprite (fst (frame env others (window, vp))) = None"
    and "view_width (snd (frame env others (window, vp))) = view_width vp"
    and "view_height (snd (frame env others (window, vp))) = view_height vp"
    and "rotation (snd (frame env others (window, vp))) = rotation vp"
proof -
  obtain w1 vp1 where r: "OnResize env window vp = (w1, vp1)" by (cases "OnResize env window vp")
  from keep have k: "viewport w1 = viewport window"
    "viewport_target_sprite w1 = viewport_target_sprite window"
    "viewport_smart_follow_sprite w1 = viewport_smart_follow_sprite window"
    "(WF_SCROLLING_TO_LOCATION \<in> w_flags w1) = (WF_SCROLLING_TO_LOCATION \<in> w_flags window)"
    "savedViewPos w1 = savedViewPos window" "viewPos vp1 = viewPos vp"
    "view_width vp1 = view_width vp" "view_height vp1 = view_height vp"
    "rotation vp1 = rotation vp"
    unfolding resize_keeps_scrolling_def using r by (metis fst_conv snd_conv)+
  from sc k have s1: "viewport_target_sprite w1 = None" "viewport_smart_follow_sprite w1 = None"
    "WF_SCROLLING_TO_LOCATION \<in> w_flags w1"
    by (simp_all add: scrolling_def)
  from sc k obtain ptr where ptr: "viewport w1 = Some ptr" by (auto simp: scrolling_def)
  obtain F where F: "fst (ViewportSetUndergroundFlag False w1 vp1) = vp1\<lparr>flags := F\<rparr>"
    using ViewportSetUndergroundFlag_fields by metis
  have t: "SavedViewAtMapEdge env (vp1\<lparr>flags := F\<rparr>) (savedViewPos w1)
      = SavedViewAtMapEdge env vp (savedViewPos window)"
    unfolding k(5) by (rule SavedViewAtMapEdge_cong) (simp_all add: k)
  have fr: "frame env others (window, vp) =
    (let t = SavedViewAtMapEdge env vp (savedViewPos window)
     in (if t = viewPos vp
         then w1\<lparr>savedViewPos := t, w_flags := w_flags w1 - {WF_SCROLLING_TO_LOCATION}\<rparr>
         else w1\<lparr>savedViewPos := t\<rparr>,
         vp1\<lparr>flags := F,
             viewPos := \<lparr>scr_x = scr_x (viewPos vp) + scroll_step (scr_x t - scr_x (viewPos vp)),
                         scr_y = scr_y (viewPos vp) + scroll_step (scr_y t - scr_y (viewPos vp))\<rparr>\<rparr>))"
    using s1 ptr F t r k(6)
    by (simp add: frame_def ViewportUpdatePosition_def Let_def ScrollingToLocation_eq
        ViewportMove_viewport case_prod_beta)
  show "savedViewPos (fst (frame env others (window, vp)))
           = SavedViewAtMapEdge env vp (savedViewPos window)"
    by (simp add: fr Let_def)
  show "viewPos (snd (frame env others (window, vp))) =
           \<lparr>scr_x = scr_x (viewPos vp)
               + scroll_step (scr_x (SavedViewAtMapEdge env vp (savedViewPos window))
                              - scr_x (viewPos vp)),
            scr_y = scr_y (viewPos vp)
               + scroll_step (scr_y (SavedViewAtMapEdge env vp (savedViewPos window))
                              - scr_y (viewPos vp))\<rparr>"
    by (simp add: fr Let_def)
  show "(WF_SCROLLING_TO_LOCATION \<in> w_flags (fst (frame env others (window, vp))))
           = (SavedViewAtMapEdge env vp (savedViewPos window) \<noteq> viewPos vp)"
    using s1 by (simp add: fr Let_def)
  show "viewport (fst (frame env others (window, vp))) = viewport window"
    using k by (simp add: fr Let_def)
  show "viewport_target_sprite (fst (frame env others (window, vp))) = None"
    using s1 by (simp add: fr Let_def)
  show "viewport_smart_follow_sprite (fst (frame env others (window, vp))) = None"
    using s1 by (simp add: fr Let_def)
  show "view_width (snd (frame env others (window, vp))) = view_width vp"
    using k by (simp add: fr Let_def)
  show "view_height (snd (frame env others (window, vp))) = view_height vp"
    using k by (simp add: fr Let_def)
  show "rotation (snd (frame env others (window, vp))) = rotation vp"
    using k by (simp add: fr Let_def)
qed

lemma scroll_step_0: "scroll_step 0 = 0" by (simp add: scroll_step_def)

lemma scroll_pair_less:
  assumes "dx \<noteq> 0 \<or> dy \<noteq> 0"
  shows "max \<bar>dx - scroll_step dx\<bar> \<bar>dy - scroll_step dy\<bar> < max \<bar>dx\<bar> \<bar>dy\<bar>"
proof -
  have x: "\<bar>dx - scroll_step dx\<bar> < \<bar>dx\<bar> \<or> (dx = 0 \<and> \<bar>dx - scroll_step dx\<bar> = 0)"
    using scroll_step_less [of dx] by (cases "dx = 0") (simp_all add: scroll_step_0)
  have y: "\<bar>dy - scroll_step dy\<bar> < \<bar>dy\<bar> \<or> (dy = 0 \<and> \<bar>dy - scroll_step dy\<bar> = 0)"
    using scroll_step_less [of dy] by (cases "dy = 0") (simp_all add: scroll_step_0)
  from x y assms show ?thesis by linarith
qed

lemma scroll_dist_zero:
  "(scroll_dist env (window, vp) = 0)
     = (SavedViewAtMapEdge env vp (savedViewPos window) = viewPos vp)"
  by (auto simp: scroll_dist_def Let_def ScreenCoordsXY.equality)

lemma frame_done:
  assumes "resize_keeps_scrolling env" and "scrolling (window, vp)"
    and "scroll_dist env (window, vp) = 0"
  shows "scrolled (frame env others (window, vp))"
proof -
  from assms(3) have z: "SavedViewAtMapEdge env vp (savedViewPos window) = viewPos vp"
    by (simp add: scroll_dist_zero)
  show ?thesis
    using frame_scrolling(1-3) [OF assms(1,2), of others] z
    by (simp add: scrolled_def scroll_step_0)
qed

lemma frame_closer:
  assumes lo: "kMapMinimumXY env \<le> map_x (MapSizeMinus2 env)"
      "kMapMinimumXY env \<le> map_y (MapSizeMinus2 env)"
    and keep: "resize_keeps_scrolling env"
    and sc: "scrolling (window, vp)"
    and ne: "scroll_dist env (window, vp) \<noteq> 0"
  shows "scrolling (frame env others (window, vp))
       \<and> scroll_dist env (frame env others (window, vp)) < scroll_dist env (window, vp)"
proof -
  define t where "t = SavedViewAtMapEdge env vp (savedViewPos window)"
  define w' where "w' = fst (frame env others (window, vp))"
  define vp' where "vp' = snd (frame env others (window, vp))"
  note f = frame_scrolling [OF keep sc, of others, folded t_def w'_def vp'_def]
  from ne have tne: "t \<noteq> viewPos vp" by (simp add: scroll_dist_zero t_def)
  have st': "frame env others (window, vp) = (w', vp')" by (simp add: w'_def vp'_def)
  have t': "SavedViewAtMapEdge env vp' (savedViewPos w') = t"
  proof -
    have "SavedViewAtMapEdge env vp' t = SavedViewAtMapEdge env vp t"
      by (rule SavedViewAtMapEdge_cong) (simp_all add: f)
    then show ?thesis by (simp add: f(1) t_def SavedViewAtMapEdge_idem [OF lo])
  qed
  have d: "scr_x t - scr_x (viewPos vp) \<noteq> 0 \<or> scr_y t - scr_y (viewPos vp) \<noteq> 0"
    using tne by (auto simp: ScreenCoordsXY.equality)
  have "scrolling (w', vp')"
    using sc f tne by (simp add: scrolling_def)
  moreover have "scroll_dist env (w', vp') < scroll_dist env (window, vp)"
    using scroll_pair_less [OF d]
    by (simp add: scroll_dist_def t' f(2) t_def [symmetric] Let_def algebra_simps)
  ultimately show ?thesis by (simp add: st')
qed

lemma scrolling_converges_within:
  assumes lo: "kMapMinimumXY env \<le> map_x (MapSizeMinus2 env)"
      "kMapMinimumXY env \<le> map_y (MapSizeMinus2 env)"
    and keep: "resize_keeps_scrolling env"
  shows "scrolling st \<Longrightarrow> scroll_dist env st \<le> int k
     \<Longrightarrow> \<exists>n. n \<le> k \<and> (\<forall>j\<le>n. scrolling ((frame env others ^^ j) st))
            \<and> (\<forall>j<n. scroll_dist env ((frame env others ^^ j) st) \<noteq> 0)
            \<and> scroll_dist env ((frame env others ^^ n) st) = 0
            \<and> scrolled ((frame env others ^^ Suc n) st)"
proof (induction k arbitrary: st)
  case 0
  obtain window vp where st: "st = (window, vp)" by (cases st)
  have "0 \<le> scroll_dist env st" by (simp add: scroll_dist_def Let_def)
  with 0 have z: "scroll_dist env st = 0" by simp
  with 0 have "scrolled (frame env others st)"
    using frame_done [OF keep, of window vp others] by (simp add: st)
  with 0 z show ?case by (intro exI [of _ 0]) simp
next
  case (Suc k)
  obtain window vp where st: "st = (window, vp)" by (cases st)
  show ?case
  proof (cases "scroll_dist env st = 0")
    case True
    with Suc.prems have "scrolled (frame env others st)"
      using frame_done [OF keep, of window vp others] by (simp add: st)
    with Suc.prems True show ?thesis by (intro exI [of _ 0]) simp
  next
    case False
    with Suc.prems have c: "scrolling (frame env others st)"
      "scroll_dist env (frame env others st) < scroll_dist env st"
      using frame_closer [OF lo keep, of window vp others] by (simp_all add: st)
    with Suc.prems have "scroll_dist env (frame env others st) \<le> int k" by simp
    with c obtain n where n: "n \<le> k"
      "\<forall>j\<le>n. scrolling ((frame env others ^^ j) (frame env others st))"
      "\<forall>j<n. scroll_dist env ((frame env others ^^ j) (frame env others st)) \<noteq> 0"
      "scroll_dist env ((frame env others ^^ n) (frame env others st)) = 0"
      "scrolled ((frame env others ^^ Suc n) (frame env others st))"
      using Suc.IH by blast
    have sw: "(frame env others ^^ j) (frame env others st) = (frame env others ^^ Suc j) st" for j
      by (simp add: funpow_swap1)
    have a: "\<forall>j\<le>Suc n. scrolling ((frame env others ^^ j) st)"
    proof (intro allI impI)
      fix j assume "j \<le> Suc n"
      then show "scrolling ((frame env others ^^ j) st)"
        using n(2) Suc.prems(1) sw by (cases j) (auto simp del: funpow.simps)
    qed
    have b: "\<forall>j<Suc n. scroll_dist env ((frame env others ^^ j) st) \<noteq> 0"
    proof (intro allI impI)
      fix j assume "j < Suc n"
      then show "scroll_dist env ((frame env others ^^ j) st) \<noteq> 0"
        using n(3) False sw by (cases j) (auto simp del: funpow.simps)
    qed
    from n(4,5) have "scroll_dist env ((frame env others ^^ Suc n) st) = 0"
      "scrolled ((frame env others ^^ Suc (Suc n)) st)"
      unfolding sw by simp_all
    with n(1) a b show ?thesis by (intro exI [of _ "Suc n"]) simp
  qed
qed

lemma following_window_frame:
  "frame example_env [] (following_window, scrolling_viewport)
     = (following_window, scrolling_viewport)"
  by (simp add: frame_def ViewportUpdatePosition_def ViewportUpdateFollowSprite_def
      following_window_def scrolling_window_def example_window_def example_env_def)

lemma following_window_stays:
  "(frame example_env [] ^^ n) (following_window, scrolling_viewport)
     = (following_window, scrolling_viewport)"
  by (induction n) (simp_all add: following_window_frame)

lemma following_window_never_scrolled:
  "\<not> scrolled ((frame example_env [] ^^ n) (following_window, scrolling_viewport))"
  unfolding following_window_stays
  by (simp add: scrolled_def following_window_def scrolling_window_def)

text \<open>
  C6, as stated, fails: a window whose scrolling flag is set, with a saved view
  position 20 view pixels left of and 9 below the view position, that follows an
  entity which is no longer in the entity list, is left as it is by the update
  (the update returns from the follow-sprite path and never gets to the
  scrolling step). No number of frames brings the offset to zero or clears the
  flag.
\<close>

theorem scrolling_with_target_counterexample:
  "WF_SCROLLING_TO_LOCATION \<in> w_flags following_window
   \<and> savedViewPos following_window = \<lparr>scr_x = - 100, scr_y = 974\<rparr>
   \<and> viewPos scrolling_viewport = \<lparr>scr_x = - 80, scr_y = 965\<rparr>
   \<and> frame example_env [] (following_window, scrolling_viewport)
       = (following_window, scrolling_viewport)
   \<and> \<not> scrolled (following_window, scrolling_viewport)"
  by (simp add: following_window_frame)
    (simp add: scrolled_def following_window_def scrolling_window_def scrolling_viewport_def)

text \<open>
  C6, amended: take a window with a viewport and with neither a target sprite
  nor a smart-follow sprite (the fixed-coordinate path of the update) whose
  scrolling flag is set, a resize handler that keeps the scrolling state, and a
  map whose smallest coordinate is not above its largest. The target is the
  saved view position after the map-edge correction. Then a frame moves the view
  position on each axis by the eighth of the distance to the target, rounded up,
  with the sign of the distance, and it leaves the scrolling flag set exactly
  when a distance is not zero at the start of the frame. And there is a number
  \<open>n\<close> of frames, below \<open>scroll_ticks\<close> (one more than the larger of the two
  distances at the start), after which both distances are zero for the first
  time; the flag is set up to then, and the next frame leaves the view position
  equal to the saved view position with the flag cleared.
\<close>

theorem scrolling_to_location_converges:
  assumes "viewport window \<noteq> None" and "viewport_target_sprite window = None"
    and "viewport_smart_follow_sprite window = None"
    and "WF_SCROLLING_TO_LOCATION \<in> w_flags window"
    and "kMapMinimumXY env \<le> map_x (MapSizeMinus2 env)"
    and "kMapMinimumXY env \<le> map_y (MapSizeMinus2 env)"
    and "resize_keeps_scrolling env"
  shows "(\<exists>n. Suc n \<le> scroll_ticks env (window, vp)
            \<and> (\<forall>j\<le>n. WF_SCROLLING_TO_LOCATION
                         \<in> w_flags (fst ((frame env others ^^ j) (window, vp))))
            \<and> (\<forall>j<n. scroll_dist env ((frame env others ^^ j) (window, vp)) \<noteq> 0)
            \<and> scroll_dist env ((frame env others ^^ n) (window, vp)) = 0
            \<and> scrolled ((frame env others ^^ Suc n) (window, vp)))
     \<and> viewPos (snd (frame env others (window, vp))) =
         \<lparr>scr_x = scr_x (viewPos vp)
             + scroll_step (scr_x (SavedViewAtMapEdge env vp (savedViewPos window)) - scr_x (viewPos vp)),
          scr_y = scr_y (viewPos vp)
             + scroll_step (scr_y (SavedViewAtMapEdge env vp (savedViewPos window)) - scr_y (viewPos vp))\<rparr>
     \<and> (WF_SCROLLING_TO_LOCATION \<in> w_flags (fst (frame env others (window, vp))))
         = (scroll_dist env (window, vp) \<noteq> 0)"
proof -
  have sc: "scrolling (window, vp)" using assms(1-4) by (simp add: scrolling_def)
  note f = frame_scrolling [OF assms(7) sc, of others]
  have "0 \<le> scroll_dist env (window, vp)" by (simp add: scroll_dist_def Let_def)
  then have "scroll_dist env (window, vp) \<le> int (nat (scroll_dist env (window, vp)))" by simp
  from scrolling_converges_within [OF assms(5,6,7) sc this, of others]
  obtain n where n: "n \<le> nat (scroll_dist env (window, vp))"
    "\<forall>j\<le>n. scrolling ((frame env others ^^ j) (window, vp))"
    "\<forall>j<n. scroll_dist env ((frame env others ^^ j) (window, vp)) \<noteq> 0"
    "scroll_dist env ((frame env others ^^ n) (window, vp)) = 0"
    "scrolled ((frame env others ^^ Suc n) (window, vp))"
    by blast
  from n(1) have "Suc n \<le> scroll_ticks env (window, vp)"
    by (simp add: scroll_ticks_def scroll_dist_def Let_def)
  moreover from n(2) have "\<forall>j\<le>n. WF_SCROLLING_TO_LOCATION
                         \<in> w_flags (fst ((frame env others ^^ j) (window, vp)))"
    by (simp add: scrolling_def)
  ultimately have "\<exists>n. Suc n \<le> scroll_ticks env (window, vp)
            \<and> (\<forall>j\<le>n. WF_SCROLLING_TO_LOCATION
                         \<in> w_flags (fst ((frame env others ^^ j) (window, vp))))
            \<and> (\<forall>j<n. scroll_dist env ((frame env others ^^ j) (window, vp)) \<noteq> 0)
            \<and> scroll_dist env ((frame env others ^^ n) (window, vp)) = 0
            \<and> scrolled ((frame env others ^^ Suc n) (window, vp))"
    using n(3,4,5) by blast
  with f(2,3) show ?thesis by (simp add: scroll_dist_zero)
qed

theorem scrolling_to_location_converges_witness:
  "resize_keeps_scrolling example_env
   \<and> scroll_ticks example_env (scrolling_window, scrolling_viewport) = 21
   \<and> (\<exists>n. Suc n \<le> 21
          \<and> scroll_dist example_env ((frame example_env [] ^^ n) (scrolling_window, scrolling_viewport)) = 0
          \<and> scrolled ((frame example_env [] ^^ Suc n) (scrolling_window, scrolling_viewport)))
   \<and> viewPos (snd (frame example_env [] (scrolling_window, scrolling_viewport)))
       = \<lparr>scr_x = - 83, scr_y = 967\<rparr>
   \<and> WF_SCROLLING_TO_LOCATION
       \<in> w_flags (fst (frame example_env [] (scrolling_window, scrolling_viewport)))"
proof -
  have h: "viewport scrolling_window \<noteq> None" "viewport_target_sprite scrolling_window = None"
    "viewport_smart_follow_sprite scrolling_window = None"
    "WF_SCROLLING_TO_LOCATION \<in> w_flags scrolling_window"
    by (simp_all add: scrolling_window_def example_window_def)
  have m: "kMapMinimumXY example_env \<le> map_x (MapSizeMinus2 example_env)"
    "kMapMinimumXY example_env \<le> map_y (MapSizeMinus2 example_env)"
    by (simp_all add: example_env_def)
  have r: "resize_keeps_scrolling example_env"
    by (simp add: resize_keeps_scrolling_def example_env_def)
  have t: "SavedViewAtMapEdge example_env scrolling_viewport (savedViewPos scrolling_window)
      = \<lparr>scr_x = - 100, scr_y = 974\<rparr>"
    by (simp add: SavedViewAtMapEdge_def ClampToMap_def ViewportPosToMapPos_def Rotate_def
        DirectionFlipXAxis_def Let_def scrolling_viewport_def centred_viewport_def
        scrolling_window_def example_window_def example_env_def signed_divide_int_def)
  have k: "scroll_ticks example_env (scrolling_window, scrolling_viewport) = 21"
    by (simp add: scroll_ticks_def t Let_def) (simp add: scrolling_viewport_def)
  have d: "scroll_dist example_env (scrolling_window, scrolling_viewport) \<noteq> 0"
    by (simp add: scroll_dist_def t Let_def) (simp add: scrolling_viewport_def)
  note c = scrolling_to_location_converges [OF h m r, of scrolling_viewport "[]"]
  from c obtain n where "Suc n \<le> scroll_ticks example_env (scrolling_window, scrolling_viewport)"
    "scroll_dist example_env ((frame example_env [] ^^ n) (scrolling_window, scrolling_viewport)) = 0"
    "scrolled ((frame example_env [] ^^ Suc n) (scrolling_window, scrolling_viewport))"
    by blast
  then have e: "\<exists>n. Suc n \<le> 21
          \<and> scroll_dist example_env ((frame example_env [] ^^ n) (scrolling_window, scrolling_viewport)) = 0
          \<and> scrolled ((frame example_env [] ^^ Suc n) (scrolling_window, scrolling_viewport))"
    unfolding k by blast
  from c [unfolded t]
  have v: "viewPos (snd (frame example_env [] (scrolling_window, scrolling_viewport)))
       = \<lparr>scr_x = - 83, scr_y = 967\<rparr>"
    by (simp add: scroll_step_def scrolling_viewport_def)
  from c d have fl: "WF_SCROLLING_TO_LOCATION
       \<in> w_flags (fst (frame example_env [] (scrolling_window, scrolling_viewport)))"
    by simp
  from r k e v fl show ?thesis by simp
qed

section \<open>Picking\<close>

lemma last_match_Nil: "last_match m info [] = info"
  by (simp add: last_match_def)

lemma last_match_Cons:
  "last_match m info (x # xs) = last_match m (if m x then InteractionInfo_of x else info) xs"
  by (simp add: last_match_def split: list.splits)

lemma last_match_append:
  "last_match m info (xs @ ys) = last_match m (last_match m info xs) ys"
  by (induction xs arbitrary: info) (simp_all add: last_match_Nil last_match_Cons)

lemma WalkAttached_eq:
  "WalkAttached penv vf fm ps ats info =
     (if list_ex (\<lambda>a. IsSpriteInteractedWith penv (attached_image_id a)
                    (ScreenCoordsXY_add (ScreenPos ps) (RelativePos a))) ats
         \<and> hit_counts penv vf fm ps
      then InteractionInfo_of ps else info)"
  by (induction ats arbitrary: info) auto

lemma WalkChildren_last: "fst (WalkChildren penv vf fm ps info) = last (chain ps)"
proof (induction penv vf fm ps info rule: WalkChildren.induct)
  case (1 penv vf fm im sp mp it el en at ch nq info)
  show ?case
  proof (cases ch)
    case None then show ?thesis by (simp add: Let_def)
  next
    case (Some c)
    have "chain c \<noteq> []" by (cases c) simp
    with Some 1 show ?thesis by (simp add: Let_def)
  qed
qed

lemma chain_walk:
  "WalkAttached penv vf fm (fst (WalkChildren penv vf fm ps info))
     (Attached (fst (WalkChildren penv vf fm ps info))) (snd (WalkChildren penv vf fm ps info))
   = last_match (node_matches penv vf fm) info (chain ps)"
proof (induction penv vf fm ps info rule: WalkChildren.induct)
  case (1 penv vf fm im sp mp it el en at ch nq info)
  show ?case
  proof (cases ch)
    case None
    then show ?thesis
      by (simp add: WalkAttached_eq last_match_Cons last_match_Nil node_matches_def
          attached_opaque_def Let_def)
  next
    case (Some c)
    with 1 show ?thesis
      by (simp add: last_match_Cons node_matches_def Let_def cong: if_cong)
  qed
qed

lemma WalkQuadrants_eq:
  "WalkQuadrants penv vf fm head info = last_match (node_matches penv vf fm) info (traversal head)"
proof (induction penv vf fm head info rule: WalkQuadrants.induct)
  case (1 penv vf fm info)
  show ?case by (simp add: last_match_Nil)
next
  case (2 penv vf fm im sp mp it el en at ch nq info)
  have "WalkQuadrants penv vf fm (Some (PaintStruct im sp mp it el en at ch nq)) info
      = WalkQuadrants penv vf fm nq
          (last_match (node_matches penv vf fm) info (chain (PaintStruct im sp mp it el en at ch nq)))"
    using chain_walk [of penv vf fm "PaintStruct im sp mp it el en at ch nq" info]
    by (simp add: Let_def case_prod_beta del: WalkChildren.simps chain.simps)
  also have "\<dots> = last_match (node_matches penv vf fm)
        (last_match (node_matches penv vf fm) info (chain (PaintStruct im sp mp it el en at ch nq)))
        (traversal nq)"
    using 2 [OF refl refl prod.collapse refl]
    by (simp add: chain_walk del: WalkChildren.simps chain.simps)
  finally show ?case by (simp add: last_match_append del: chain.simps)
qed


lemmas pick_eval_defs =
  last_match_def node_matches_def attached_opaque_def
  hit_counts_def PSSpriteTypeIsInFilter_def GetPaintStructVisibility_def InteractionInfo_of_def
  InteractionInfo_none_def example_pick_def scenery_node_def two_sprites_def
  sibling_with_attached_def first_sibling_def single_with_attached_def ScreenCoordsXY_add_def


text \<open>
  C8, as stated, fails: in a chain of two siblings the attached image of the
  first sibling is opaque at the pixel, and the sibling passes the filter and is
  visible, yet the query returns the empty info: the attached images of the
  first sibling are not tested.
\<close>

theorem attached_of_sibling_counterexample:
  "attached_opaque example_pick first_sibling
   \<and> hit_counts example_pick {} {ItemScenery} first_sibling
   \<and> SetInteractionInfoFromPaintSession example_pick sibling_with_attached {} {ItemScenery}
       = InteractionInfo_none"
  by (simp add: SetInteractionInfoFromPaintSession_def pick_eval_defs Let_def)

lemma drop_inner_attached_info: "InteractionInfo_of (drop_inner_attached n) = InteractionInfo_of n"
  by (cases n) (simp add: InteractionInfo_of_def)

lemma GetPaintStructVisibility_fields:
  assumes "InteractionItem a = InteractionItem b" and "Element a = Element b"
    and "Entity a = Entity b"
  shows "GetPaintStructVisibility a vf = GetPaintStructVisibility b vf"
  unfolding GetPaintStructVisibility_def assms by (rule refl)

lemma drop_inner_attached_hit:
  "hit_counts penv vf fm (drop_inner_attached n) = hit_counts penv vf fm n"
proof (cases n)
  case (PaintStruct im sp mp it el en at ch nq)
  have "GetPaintStructVisibility (drop_inner_attached n) vf = GetPaintStructVisibility n vf"
    by (rule GetPaintStructVisibility_fields) (simp_all add: PaintStruct)
  then show ?thesis
    by (simp add: hit_counts_def PSSpriteTypeIsInFilter_def PaintStruct)
qed

lemma drop_inner_attached_matches:
  "node_matches penv vf fm (drop_inner_attached n) = node_matches penv vf fm n"
proof (cases n)
  case (PaintStruct im sp mp it el en at ch nq)
  show ?thesis
    unfolding node_matches_def drop_inner_attached_hit
    by (cases ch) (simp_all add: PaintStruct attached_opaque_def)
qed

lemma chain_drop_inner_attached: "chain (drop_inner_attached n) = map drop_inner_attached (chain n)"
  by (induction n rule: chain.induct) (simp split: option.splits)

lemma traversal_drop_inner_attached:
  "traversal (map_option drop_inner_attached head) = map drop_inner_attached (traversal head)"
proof (induction head rule: traversal.induct)
  case 1
  show ?case by simp
next
  case (2 im sp mp it el en at ch nq)
  have "traversal (map_option drop_inner_attached (Some (PaintStruct im sp mp it el en at ch nq)))
      = chain (drop_inner_attached (PaintStruct im sp mp it el en at ch nq))
        @ traversal (map_option drop_inner_attached nq)"
    by simp
  with 2 show ?case
    by (simp only: chain_drop_inner_attached traversal.simps map_append)
qed

lemma last_match_map:
  "last_match m info (map drop_inner_attached xs) = last_match (m \<circ> drop_inner_attached) info xs"
  by (induction xs arbitrary: info)
    (simp_all add: last_match_Nil last_match_Cons drop_inner_attached_info)

text \<open>
  C8, amended: of the nodes of a children chain only the last one (the node
  without children) has its attached images tested, each at the node's screen
  position plus the relative offset and under the filter and visibility rules of
  the node; the attached images of the other nodes of a chain are not tested, so
  the result of a query is the same without them.
\<close>

theorem attached_of_chain_end_only:
  "SetInteractionInfoFromPaintSession penv \<lparr>PaintHead = map_option drop_inner_attached head\<rparr> vf fm
     = SetInteractionInfoFromPaintSession penv \<lparr>PaintHead = head\<rparr> vf fm
   \<and> WalkQuadrants penv vf fm (Some ps) info
     = WalkQuadrants penv vf fm (NextQuadrantEntry ps)
         (if attached_opaque penv (last (chain ps)) \<and> hit_counts penv vf fm (last (chain ps))
          then InteractionInfo_of (last (chain ps))
          else snd (WalkChildren penv vf fm ps info))"
proof -
  have "node_matches penv vf fm \<circ> drop_inner_attached = node_matches penv vf fm"
    by (rule ext) (simp add: drop_inner_attached_matches)
  then have a: "SetInteractionInfoFromPaintSession penv \<lparr>PaintHead = map_option drop_inner_attached head\<rparr> vf fm
     = SetInteractionInfoFromPaintSession penv \<lparr>PaintHead = head\<rparr> vf fm"
    by (simp add: SetInteractionInfoFromPaintSession_def WalkQuadrants_eq
        traversal_drop_inner_attached last_match_map)
  have b: "WalkQuadrants penv vf fm (Some ps) info
     = WalkQuadrants penv vf fm (NextQuadrantEntry ps)
         (if attached_opaque penv (last (chain ps)) \<and> hit_counts penv vf fm (last (chain ps))
          then InteractionInfo_of (last (chain ps))
          else snd (WalkChildren penv vf fm ps info))"
  proof (cases ps)
    case (PaintStruct im sp mp it el en at ch nq)
    show ?thesis
      unfolding PaintStruct
      by (simp add: Let_def case_prod_beta WalkAttached_eq WalkChildren_last attached_opaque_def
          del: WalkChildren.simps chain.simps)
  qed
  from a b show ?thesis by simp
qed

theorem attached_of_chain_end_only_witness:
  "SetInteractionInfoFromPaintSession example_pick single_with_attached {} {ItemScenery}
    = \<lparr>Loc = \<lparr>map_x = 32, map_y = 32\<rparr>, info_Element = None, info_Entity = None, SpriteType = ItemScenery\<rparr>
   \<and> SetInteractionInfoFromPaintSession example_pick
        \<lparr>PaintHead = map_option drop_inner_attached (PaintHead sibling_with_attached)\<rparr> {} {ItemScenery}
    = SetInteractionInfoFromPaintSession example_pick sibling_with_attached {} {ItemScenery}"
  using attached_of_chain_end_only [of example_pick "PaintHead sibling_with_attached" "{}" "{ItemScenery}"
         "the (PaintHead single_with_attached)" InteractionInfo_none]
  by (simp add: SetInteractionInfoFromPaintSession_def pick_eval_defs Let_def)

end
